theory Spec2Isabelle
  imports
    Main
    "HOL-Library.Word"
    "HOL-Library.Multiset"
    "HOL-Library.List_Lexorder"
    "HOL-Library.Product_Lexorder"
begin

unbundle bit_operations_syntax

section \<open>Shared data: bytes and errors\<close>

type_synonym byte = "8 word"
type_synonym bytes = "byte list"

text \<open>
  The registered error sentinels that the three source files return or wrap
  (\<open>clienttypes.ErrInvalidClientType\<close>, \<open>clienttypes.ErrInvalidEvidence\<close>,
  \<open>sdkerrors.ErrInvalidHeight\<close>, \<open>types.ErrUnbondingPeriodExpired\<close>,
  \<open>ErrInvalidProof\<close>). \<open>ErrKeeper\<close> stands for whatever error a keeper returns.
\<close>

datatype sentinel =
    ErrInvalidClientType
  | ErrInvalidEvidence
  | ErrInvalidHeight
  | ErrUnbondingPeriodExpired
  | ErrInvalidProof
  | ErrKeeper string

text \<open>Arguments handed to the format strings of \<open>sdkerrors.Wrapf\<close>.\<close>

datatype fmt_arg =
    ArgUint64 "64 word"
  | ArgInt64 int
  | ArgDuration int
  | ArgText string

text \<open>
  An error value is a sentinel, or a sentinel chain wrapped with a description.
  \<open>Wrap p s\<close> is \<open>sdkerrors.Wrap(p, s)\<close> with a literal description,
  \<open>Wrapf p f as\<close> is \<open>sdkerrors.Wrapf(p, f, as...)\<close>, and \<open>WrapText p e\<close> is
  \<open>sdkerrors.Wrap(p, e.Error())\<close>: only the text of \<open>e\<close> survives, as the
  description; the parent chain is that of \<open>p\<close>.
\<close>

datatype error =
    Root sentinel
  | Wrap error string
  | Wrapf error string "fmt_arg list"
  | WrapText error error

text \<open>\<open>errors.Is\<close>: follows the parent chain only.\<close>

fun err_Is :: "error \<Rightarrow> sentinel \<Rightarrow> bool" where
  "err_Is (Root s) t = (s = t)"
| "err_Is (Wrap p _) t = err_Is p t"
| "err_Is (Wrapf p _ _) t = err_Is p t"
| "err_Is (WrapText p _) t = err_Is p t"

text \<open>The error whose text is the outermost description, when there is one.\<close>

fun err_described :: "error \<Rightarrow> error option" where
  "err_described (WrapText _ e) = Some e"
| "err_described _ = None"

section \<open>Commitment proof: the signature variant\<close>

record SignatureProof =
  Signature :: bytes

record SignaturePrefix =
  KeyPrefix :: bytes

datatype commitment_type = Merkle | SignatureT

definition NewSignaturePrefix :: "bytes \<Rightarrow> SignaturePrefix" where
  "NewSignaturePrefix keyPrefix = \<lparr>KeyPrefix = keyPrefix\<rparr>"

definition prefix_GetCommitmentType :: "SignaturePrefix \<Rightarrow> commitment_type" where
  "prefix_GetCommitmentType sp = SignatureT"

definition prefix_Bytes :: "SignaturePrefix \<Rightarrow> bytes" where
  "prefix_Bytes sp = KeyPrefix sp"

definition prefix_IsEmpty :: "SignaturePrefix \<Rightarrow> bool" where
  "prefix_IsEmpty sp = (length (prefix_Bytes sp) = 0)"

definition GetCommitmentType :: "SignatureProof \<Rightarrow> commitment_type" where
  "GetCommitmentType proof = SignatureT"

text \<open>An \<open>error\<close> result of Go is \<open>error option\<close>: \<open>None\<close> is \<open>nil\<close>.\<close>

definition VerifyMembership :: "SignatureProof \<Rightarrow> 'root \<Rightarrow> 'path \<Rightarrow> bytes \<Rightarrow> error option" where
  "VerifyMembership proof root path val = None"

definition VerifyNonMembership :: "SignatureProof \<Rightarrow> 'root \<Rightarrow> 'path \<Rightarrow> error option" where
  "VerifyNonMembership proof root path = None"

definition IsEmpty :: "SignatureProof \<Rightarrow> bool" where
  "IsEmpty proof = (length (Signature proof) = 0)"

definition ValidateBasic :: "SignatureProof \<Rightarrow> error option" where
  "ValidateBasic proof = (if IsEmpty proof then Some (Root ErrInvalidProof) else None)"

section \<open>Merkle root builder\<close>

text \<open>
  \<open>kv.Pair\<close> of the Tendermint library: a key and a value, both byte slices.
  It is a product here so that lists of pairs can be compared as wholes.
\<close>

type_synonym kv_Pair = "bytes \<times> bytes"

abbreviation Key :: "kv_Pair \<Rightarrow> bytes" where "Key \<equiv> fst"
abbreviation Value :: "kv_Pair \<Rightarrow> bytes" where "Value \<equiv> snd"

text \<open>\<open>[]byte(key)\<close>: the bytes of a Go string.\<close>

definition bytes_of_string :: "string \<Rightarrow> bytes" where
  "bytes_of_string s = map of_char s"

text \<open>
  \<open>bytes.Compare\<close>: lexicographic comparison of unsigned bytes, a proper prefix
  being smaller; the result is -1, 0 or +1.
\<close>

fun bytes_Compare :: "bytes \<Rightarrow> bytes \<Rightarrow> int" where
  "bytes_Compare [] [] = 0"
| "bytes_Compare [] (y # ys) = -1"
| "bytes_Compare (x # xs) [] = 1"
| "bytes_Compare (x # xs) (y # ys) =
     (if x < y then -1 else if y < x then 1 else bytes_Compare xs ys)"

text \<open>
  \<open>kv.Pairs.Less\<close>: by key, and by value when the keys are equal. Its
  \<open>default: panic\<close> branch is dead, since \<open>bytes_Compare\<close> only returns
  -1, 0 or 1 (lemma \<open>bytes_Compare_range\<close>).
\<close>

definition Pairs_Less :: "kv_Pair \<Rightarrow> kv_Pair \<Rightarrow> bool" where
  "Pairs_Less a b =
     (let c = bytes_Compare (Key a) (Key b) in
      if c = -1 then True
      else if c = 0 then bytes_Compare (Value a) (Value b) < 0
      else False)"

text \<open>
  \<open>kv.Pairs.Sort\<close> is \<open>sort.Sort\<close> under \<open>Pairs_Less\<close>. Pairs that
  \<open>Pairs_Less\<close> does not separate are equal, so every sorting algorithm returns the
  same slice; it is written here as an insertion sort.
\<close>

fun Pairs_insert :: "kv_Pair \<Rightarrow> kv_Pair list \<Rightarrow> kv_Pair list" where
  "Pairs_insert p [] = [p]"
| "Pairs_insert p (q # qs) = (if Pairs_Less q p then q # Pairs_insert p qs else p # q # qs)"

fun Pairs_Sort :: "kv_Pair list \<Rightarrow> kv_Pair list" where
  "Pairs_Sort [] = []"
| "Pairs_Sort (p # ps) = Pairs_insert p (Pairs_Sort ps)"

text \<open>
  \<open>binary.PutUvarint(buf, x)\<close>: the loop writes the low seven bits of \<open>x\<close> with the
  continuation bit set while \<open>x \<ge> 0x80\<close>, then the last byte; it returns the number
  of bytes written. A write past the end of \<open>buf\<close> is an index-out-of-range panic
  (\<open>None\<close>).
\<close>

function PutUvarint_loop :: "bytes \<Rightarrow> 64 word \<Rightarrow> nat \<Rightarrow> (bytes \<times> 64 word \<times> nat) option" where
  "PutUvarint_loop buf x i =
     (if x \<ge> 0x80 then
        (if i < length buf
         then PutUvarint_loop (buf[i := (ucast x OR 0x80)]) (drop_bit 7 x) (i + 1)
         else None)
      else Some (buf, x, i))"
  by pat_completeness auto
termination
proof (relation "measure (\<lambda>(buf, x, i). unat x)")
  show "wf (measure (\<lambda>(buf, x, i). unat x))" by simp
next
  fix buf :: bytes and x :: "64 word" and i :: nat
  assume "128 \<le> x"
  then have "128 \<le> unat x" by (simp add: word_le_nat_alt)
  then have "unat x div 128 < unat x" by simp
  then show "((buf[i := ucast x OR 128], drop_bit 7 x, i + 1), buf, x, i)
      \<in> measure (\<lambda>(buf, x, i). unat x)"
    by (simp add: unat_drop_bit_eq drop_bit_eq_div unat_div)
qed

declare PutUvarint_loop.simps [simp del]

definition PutUvarint :: "bytes \<Rightarrow> 64 word \<Rightarrow> (bytes \<times> nat) option" where
  "PutUvarint buf x =
     (case PutUvarint_loop buf x 0 of
        None \<Rightarrow> None
      | Some (buf', x', i) \<Rightarrow>
          if i < length buf' then Some (buf'[i := ucast x'], i + 1) else None)"

text \<open>
  \<open>encodeByteSlice(w, bz)\<close> with the writer \<open>w\<close> a \<open>bytes.Buffer\<close>, given by its
  contents so far; the result is the contents afterwards. \<open>bytes.Buffer.Write\<close> always
  returns a nil error, so the only failure is the panic of \<open>PutUvarint\<close> on the
  eight-byte array \<open>buf\<close>.
\<close>

definition encodeByteSlice :: "bytes \<Rightarrow> bytes \<Rightarrow> bytes option" where
  "encodeByteSlice w bz =
     (case PutUvarint (replicate 8 0) (of_nat (length bz)) of
        None \<Rightarrow> None
      | Some (buf, n) \<Rightarrow> Some (w @ take n buf @ bz))"

text \<open>\<open>kvPair.bytes\<close>: the key, then the value, each length-prefixed.\<close>

definition kvPair_bytes :: "kv_Pair \<Rightarrow> bytes option" where
  "kvPair_bytes kv =
     (case encodeByteSlice [] (Key kv) of
        None \<Rightarrow> None
      | Some b \<Rightarrow> encodeByteSlice b (Value kv))"

text \<open>The loop of \<open>hashKVPairs\<close> that fills \<open>kvsH\<close>.\<close>

fun kvs_bytes :: "kv_Pair list \<Rightarrow> bytes list option" where
  "kvs_bytes [] = Some []"
| "kvs_bytes (kvp # rest) =
     (case kvPair_bytes kvp of
        None \<Rightarrow> None
      | Some b \<Rightarrow> (case kvs_bytes rest of None \<Rightarrow> None | Some bs \<Rightarrow> Some (b # bs)))"

text \<open>
  \<open>hashKVPairs\<close>. \<open>merkle.SimpleHashFromByteSlices\<close> and \<open>tmhash.Sum\<close> belong to the
  Tendermint library; they are parameters of the model.
\<close>

definition hashKVPairs :: "(bytes list \<Rightarrow> bytes) \<Rightarrow> kv_Pair list \<Rightarrow> bytes option" where
  "hashKVPairs SimpleHashFromByteSlices kvs =
     (case kvs_bytes kvs of
        None \<Rightarrow> None
      | Some kvsH \<Rightarrow> Some (SimpleHashFromByteSlices kvsH))"

subsection \<open>merkleMap\<close>

record merkleMap =
  mm_kvs :: "kv_Pair list"
  mm_sorted :: bool

definition newMerkleMap :: merkleMap where
  "newMerkleMap = \<lparr>mm_kvs = [], mm_sorted = False\<rparr>"

definition merkleMap_set :: "(bytes \<Rightarrow> bytes) \<Rightarrow> merkleMap \<Rightarrow> string \<Rightarrow> bytes \<Rightarrow> merkleMap" where
  "merkleMap_set tmhash_Sum sm key val =
     (let sm1 = sm\<lparr>mm_sorted := False\<rparr>;
          vhash = tmhash_Sum val
      in sm1\<lparr>mm_kvs := mm_kvs sm1 @ [(bytes_of_string key, vhash)]\<rparr>)"

definition merkleMap_sort :: "merkleMap \<Rightarrow> merkleMap" where
  "merkleMap_sort sm =
     (if mm_sorted sm then sm
      else sm\<lparr>mm_kvs := Pairs_Sort (mm_kvs sm), mm_sorted := True\<rparr>)"

text \<open>\<open>hash\<close> returns the root and leaves the map sorted; \<open>None\<close> is a panic.\<close>

definition merkleMap_hash :: "(bytes list \<Rightarrow> bytes) \<Rightarrow> merkleMap \<Rightarrow> (bytes \<times> merkleMap) option" where
  "merkleMap_hash SimpleHashFromByteSlices sm =
     (let sm1 = merkleMap_sort sm in
      case hashKVPairs SimpleHashFromByteSlices (mm_kvs sm1) of
        None \<Rightarrow> None
      | Some root \<Rightarrow> Some (root, sm1))"

subsection \<open>simpleMap\<close>

record simpleMap =
  sm_kvs :: "kv_Pair list"
  sm_sorted :: bool

definition newSimpleMap :: simpleMap where
  "newSimpleMap = \<lparr>sm_kvs = [], sm_sorted = False\<rparr>"

definition simpleMap_Set :: "(bytes \<Rightarrow> bytes) \<Rightarrow> simpleMap \<Rightarrow> string \<Rightarrow> bytes \<Rightarrow> simpleMap" where
  "simpleMap_Set tmhash_Sum sm key val =
     (let sm1 = sm\<lparr>sm_sorted := False\<rparr>;
          vhash = tmhash_Sum val
      in sm1\<lparr>sm_kvs := sm_kvs sm1 @ [(bytes_of_string key, vhash)]\<rparr>)"

definition simpleMap_Sort :: "simpleMap \<Rightarrow> simpleMap" where
  "simpleMap_Sort sm =
     (if sm_sorted sm then sm
      else sm\<lparr>sm_kvs := Pairs_Sort (sm_kvs sm), sm_sorted := True\<rparr>)"

definition simpleMap_Hash :: "(bytes list \<Rightarrow> bytes) \<Rightarrow> simpleMap \<Rightarrow> (bytes \<times> simpleMap) option" where
  "simpleMap_Hash SimpleHashFromByteSlices sm =
     (let sm1 = simpleMap_Sort sm in
      case hashKVPairs SimpleHashFromByteSlices (sm_kvs sm1) of
        None \<Rightarrow> None
      | Some root \<Rightarrow> Some (root, sm1))"

definition simpleMap_KVPairs :: "simpleMap \<Rightarrow> kv_Pair list \<times> simpleMap" where
  "simpleMap_KVPairs sm = (let sm1 = simpleMap_Sort sm in (sm_kvs sm1, sm1))"

definition NewKVPair :: "bytes \<Rightarrow> bytes \<Rightarrow> kv_Pair" where
  "NewKVPair key val = (key, val)"

definition KVPair_Bytes :: "kv_Pair \<Rightarrow> bytes option" where
  "KVPair_Bytes kv =
     (case encodeByteSlice [] (Key kv) of
        None \<Rightarrow> None
      | Some b \<Rightarrow> encodeByteSlice b (Value kv))"

subsection \<open>Sequences of insertions, and the leaf format the specification names\<close>

fun simpleMap_SetAll :: "(bytes \<Rightarrow> bytes) \<Rightarrow> simpleMap \<Rightarrow> (string \<times> bytes) list \<Rightarrow> simpleMap" where
  "simpleMap_SetAll tmhash_Sum sm [] = sm"
| "simpleMap_SetAll tmhash_Sum sm ((key, val) # rest) =
     simpleMap_SetAll tmhash_Sum (simpleMap_Set tmhash_Sum sm key val) rest"

fun merkleMap_setAll :: "(bytes \<Rightarrow> bytes) \<Rightarrow> merkleMap \<Rightarrow> (string \<times> bytes) list \<Rightarrow> merkleMap" where
  "merkleMap_setAll tmhash_Sum sm [] = sm"
| "merkleMap_setAll tmhash_Sum sm ((key, val) # rest) =
     merkleMap_setAll tmhash_Sum (merkleMap_set tmhash_Sum sm key val) rest"

text \<open>
  The unsigned varint of the specification (little-endian base 128, the top bit of a
  byte set when more bytes follow), on natural numbers, and the leaf
  \<open>varint(len(key)) || key || varint(len(hashedValue)) || hashedValue\<close>.
\<close>

fun varint :: "nat \<Rightarrow> bytes" where
  "varint n = (if n < 128 then [of_nat n] else of_nat (n mod 128 + 128) # varint (n div 128))"

declare varint.simps [simp del]

definition leaf :: "kv_Pair \<Rightarrow> bytes" where
  "leaf kv = varint (length (Key kv)) @ Key kv @ varint (length (Value kv)) @ Value kv"

text \<open>What \<open>Set\<close> stores for a key and a value.\<close>

definition stored :: "(bytes \<Rightarrow> bytes) \<Rightarrow> string \<times> bytes \<Rightarrow> kv_Pair" where
  "stored tmhash_Sum p = (bytes_of_string (fst p), tmhash_Sum (snd p))"

section \<open>Light-client misbehaviour detection (Tendermint client)\<close>

text \<open>
  \<open>time.Time\<close> as nanoseconds on the time line and \<open>time.Duration\<close> as a count of
  nanoseconds held in an \<open>int64\<close>. \<open>Time.Sub\<close> saturates at the largest and the
  smallest duration.
\<close>

type_synonym Time = int
type_synonym Duration = int

definition maxDuration :: Duration where
  "maxDuration = 2 ^ 63 - 1"

definition minDuration :: Duration where
  "minDuration = - (2 ^ 63)"

definition time_Sub :: "Time \<Rightarrow> Time \<Rightarrow> Duration" where
  "time_Sub t u =
     (let d = t - u in
      if d > maxDuration then maxDuration
      else if d < minDuration then minDuration
      else d)"

text \<open>
  The fields of \<open>types.ClientState\<close> that the function reads or writes; the trust
  level is a fraction of the Tendermint library, a type parameter here.
\<close>

record 'tl ClientState =
  ID :: string
  TrustLevel :: 'tl
  UnbondingPeriod :: Duration
  FrozenHeight :: "64 word"

text \<open>
  Modelled from the spec: \<open>ClientState.IsFrozen\<close> is not in the source files at hand;
  the data model gives the client an optional frozen height, 0 meaning not frozen.
\<close>

definition IsFrozen :: "'tl ClientState \<Rightarrow> bool" where
  "IsFrozen cs = (FrozenHeight cs \<noteq> 0)"

text \<open>The trusted consensus state: its timestamp and its validator set in wire form.\<close>

record 'vsp ConsensusState =
  Timestamp :: Time
  ValidatorSet :: 'vsp

text \<open>
  Modelled from the spec: \<open>Evidence.GetHeight\<close> is not in the source files at hand;
  the data model gives evidence two conflicting signed headers, a chain identifier and
  a claimed height, which is the \<open>int64\<close> that \<open>GetHeight\<close> returns.
\<close>

record 'hp Evidence =
  ChainID :: string
  Header1 :: 'hp
  Header2 :: 'hp
  ClaimedHeight :: int

text \<open>
  The interface values handed to the function: the Tendermint kind, or another kind
  (named by its client type; another misbehaviour still answers \<open>GetHeight\<close>).
  A nil client state or consensus state fails its cast as another kind does. The
  misbehaviour is taken to be non-nil, as the callers hand over a decoded message.
\<close>

datatype 'tl ClientStateI =
    TendermintClientState "'tl ClientState"
  | OtherClientState string

datatype 'vsp ConsensusStateI =
    TendermintConsensusState "'vsp ConsensusState"
  | OtherConsensusState string

datatype 'hp MisbehaviourI =
    TendermintEvidence "'hp Evidence"
  | OtherMisbehaviour int

fun GetHeight :: "'hp MisbehaviourI \<Rightarrow> int" where
  "GetHeight (TendermintEvidence ev) = ClaimedHeight ev"
| "GetHeight (OtherMisbehaviour h) = h"

text \<open>The conversion \<open>uint64(x)\<close> of an \<open>int64\<close>: the same 64 bits.\<close>

definition uint64 :: "int \<Rightarrow> 64 word" where
  "uint64 x = word_of_int x"

text \<open>
  The functions of the Tendermint library that \<open>checkMisbehaviour\<close> calls. An error of
  the library is given by its text. \<open>VerifyCommitTrusting tm valset chainID sh level\<close>
  is the call \<open>valset.VerifyCommitTrusting(chainID, sh.Commit.BlockID, sh.Height,
  sh.Commit, level.ToTendermint())\<close>.
\<close>

record ('vsp, 'vs, 'hp, 'sh, 'tl) tmtypes =
  ValidatorSetFromProto :: "'vsp \<Rightarrow> string + 'vs"
  SignedHeaderFromProto :: "'hp \<Rightarrow> string + 'sh"
  VerifyCommitTrusting :: "'vs \<Rightarrow> string \<Rightarrow> 'sh \<Rightarrow> 'tl \<Rightarrow> string option"

definition checkMisbehaviour ::
  "('vsp, 'vs, 'hp, 'sh, 'tl) tmtypes \<Rightarrow> 'tl ClientState \<Rightarrow> 'vsp ConsensusState \<Rightarrow> 'hp Evidence
     \<Rightarrow> 64 word \<Rightarrow> Time \<Rightarrow> error option" where
  "checkMisbehaviour tm clientState consensusState evidence height currentTimestamp =
     (if height > uint64 (ClaimedHeight evidence) then
        Some (Wrapf (Root ErrInvalidHeight) ''height > evidence header height (%d > %d)''
                [ArgUint64 height, ArgInt64 (ClaimedHeight evidence)])
      else if time_Sub currentTimestamp (Timestamp consensusState) \<ge> UnbondingPeriod clientState then
        Some (Wrapf (Root ErrUnbondingPeriodExpired)
                ''current timestamp minus the latest consensus state timestamp is greater than or equal to the unbonding period (%s >= %s)''
                [ArgDuration (time_Sub currentTimestamp (Timestamp consensusState)),
                 ArgDuration (UnbondingPeriod clientState)])
      else
        (case ValidatorSetFromProto tm (ValidatorSet consensusState) of
           Inl err \<Rightarrow> Some (Wrap (Root ErrInvalidEvidence) err)
         | Inr valset \<Rightarrow>
        (case SignedHeaderFromProto tm (Header1 evidence) of
           Inl err \<Rightarrow> Some (Wrapf (Root ErrInvalidEvidence) ''invalid signed header 1: %s'' [ArgText err])
         | Inr signedHeader1 \<Rightarrow>
        (case SignedHeaderFromProto tm (Header2 evidence) of
           Inl err \<Rightarrow> Some (Wrapf (Root ErrInvalidEvidence) ''invalid signed header 2: %s'' [ArgText err])
         | Inr signedHeader2 \<Rightarrow>
        (case VerifyCommitTrusting tm valset (ChainID evidence) signedHeader1 (TrustLevel clientState) of
           Some err \<Rightarrow>
             Some (Wrapf (Root ErrInvalidEvidence)
                     ''validator set in header 1 has too much change from last known validator set: %v''
                     [ArgText err])
         | None \<Rightarrow>
        (case VerifyCommitTrusting tm valset (ChainID evidence) signedHeader2 (TrustLevel clientState) of
           Some err \<Rightarrow>
             Some (Wrapf (Root ErrInvalidEvidence)
                     ''validator set in header 2 has too much change from last known validator set: %v''
                     [ArgText err])
         | None \<Rightarrow> None))))))"

definition CheckMisbehaviourAndUpdateState ::
  "('vsp, 'vs, 'hp, 'sh, 'tl) tmtypes \<Rightarrow> 'tl ClientStateI \<Rightarrow> 'vsp ConsensusStateI \<Rightarrow> 'hp MisbehaviourI
     \<Rightarrow> 64 word \<Rightarrow> Time \<Rightarrow> error + 'tl ClientStateI" where
  "CheckMisbehaviourAndUpdateState tm clientState consensusState misbehaviour height currentTimestamp =
     (case clientState of
        OtherClientState _ \<Rightarrow>
          Inl (Wrap (Root ErrInvalidClientType) ''client state type is not Tendermint'')
      | TendermintClientState tmClientState \<Rightarrow>
          if IsFrozen tmClientState \<and> FrozenHeight tmClientState \<le> uint64 (GetHeight misbehaviour) then
            Inl (Wrapf (Root ErrInvalidEvidence)
                   ''client is already frozen at earlier height %d than misbehaviour height %d''
                   [ArgUint64 (FrozenHeight tmClientState), ArgInt64 (GetHeight misbehaviour)])
          else
            (case consensusState of
               OtherConsensusState _ \<Rightarrow>
                 Inl (Wrap (Root ErrInvalidClientType) ''consensus state is not Tendermint'')
             | TendermintConsensusState tmConsensusState \<Rightarrow>
                 (case misbehaviour of
                    OtherMisbehaviour _ \<Rightarrow>
                      Inl (Wrap (Root ErrInvalidClientType) ''evidence type is not Tendermint'')
                  | TendermintEvidence tmEvidence \<Rightarrow>
                      (case checkMisbehaviour tm tmClientState tmConsensusState tmEvidence
                              height currentTimestamp of
                         Some err \<Rightarrow> Inl (WrapText (Root ErrInvalidEvidence) err)
                       | None \<Rightarrow>
                           Inr (TendermintClientState
                                  (tmClientState\<lparr>FrozenHeight := uint64 (ClaimedHeight tmEvidence)\<rparr>))))))"

text \<open>
  Whether a sentinel occurs anywhere in an error: in its parent chain or in an error
  whose text it carries.
\<close>

fun err_mentions :: "error \<Rightarrow> sentinel \<Rightarrow> bool" where
  "err_mentions (Root s) t = (s = t)"
| "err_mentions (Wrap p _) t = err_mentions p t"
| "err_mentions (Wrapf p _ _) t = err_mentions p t"
| "err_mentions (WrapText p e) t = (err_mentions p t \<or> err_mentions e t)"

text \<open>The error of the frozen guard and the error of the unbonding check, as the source builds them.\<close>

definition frozen_error :: "'tl ClientState \<Rightarrow> 'hp MisbehaviourI \<Rightarrow> error" where
  "frozen_error cs mb =
     Wrapf (Root ErrInvalidEvidence)
       ''client is already frozen at earlier height %d than misbehaviour height %d''
       [ArgUint64 (FrozenHeight cs), ArgInt64 (GetHeight mb)]"

definition unbonding_error :: "Duration \<Rightarrow> Duration \<Rightarrow> error" where
  "unbonding_error d p =
     Wrapf (Root ErrUnbondingPeriodExpired)
       ''current timestamp minus the latest consensus state timestamp is greater than or equal to the unbonding period (%s >= %s)''
       [ArgDuration d, ArgDuration p]"

subsection \<open>A concrete library and concrete inputs\<close>

text \<open>
  A library whose validator set always decodes, whose header decodes when it is
  \<open>True\<close>, and whose commit verification always passes; a client with an unbonding
  period of 10 and a given frozen height; a consensus state stamped 95; evidence at a
  given height.
\<close>

definition tm0 :: "(unit, unit, bool, unit, unit) tmtypes" where
  "tm0 = \<lparr>ValidatorSetFromProto = (\<lambda>_. Inr ()),
          SignedHeaderFromProto = (\<lambda>h. if h then Inr () else Inl ''bad header''),
          VerifyCommitTrusting = (\<lambda>_ _ _ _. None)\<rparr>"

definition cs_at :: "64 word \<Rightarrow> unit ClientState" where
  "cs_at fh = \<lparr>ID = ''07-tendermint-0'', TrustLevel = (), UnbondingPeriod = 10, FrozenHeight = fh\<rparr>"

definition cons0 :: "unit ConsensusState" where
  "cons0 = \<lparr>Timestamp = 95, ValidatorSet = ()\<rparr>"

definition ev_at :: "int \<Rightarrow> bool Evidence" where
  "ev_at h = \<lparr>ChainID = ''chain'', Header1 = True, Header2 = True, ClaimedHeight = h\<rparr>"

subsection \<open>Sequences of calls on one client\<close>





section \<open>Connection handshake message handlers\<close>

text \<open>
  A value of the interface \<open>commitmentexported.Proof\<close>: the signature proof above, or
  a Merkle proof, whose content the handlers never look at.
\<close>

datatype ProofI =
    SignatureProofI SignatureProof
  | MerkleProofI bytes

text \<open>
  The value that \<open>Any.GetCachedValue\<close> returns: nil when nothing was unpacked into the
  envelope, a proof, or a value of another type, named by its type URL.
\<close>

datatype cached_value =
    NilValue
  | ProofValue ProofI
  | OtherValue string

record Any =
  TypeUrl :: string
  AnyValue :: bytes
  cachedValue :: cached_value

definition GetCachedValue :: "Any \<Rightarrow> cached_value" where
  "GetCachedValue any = cachedValue any"

text \<open>
  The type assertion \<open>v.(commitmentexported.Proof)\<close> in its one-result form: it panics
  (\<open>None\<close>) on nil and on a value that does not implement the interface.
\<close>

fun assert_Proof :: "cached_value \<Rightarrow> ProofI option" where
  "assert_Proof (ProofValue p) = Some p"
| "assert_Proof NilValue = None"
| "assert_Proof (OtherValue _) = None"

record Counterparty =
  cp_ClientID :: string
  cp_ConnectionID :: string
  cp_Prefix :: bytes

record MsgConnectionOpenInit =
  init_ConnectionID :: string
  init_ClientID :: string
  init_Counterparty :: Counterparty

record MsgConnectionOpenTry =
  try_ConnectionID :: string
  try_ClientID :: string
  try_Counterparty :: Counterparty
  try_CounterpartyVersions :: "string list"
  try_ProofInit :: Any
  try_ProofConsensus :: Any
  try_ProofHeight :: "64 word"
  try_ConsensusHeight :: "64 word"

record MsgConnectionOpenAck =
  ack_ConnectionID :: string
  ack_Version :: string
  ack_ProofTry :: Any
  ack_ProofConsensus :: Any
  ack_ProofHeight :: "64 word"
  ack_ConsensusHeight :: "64 word"

record MsgConnectionOpenConfirm =
  confirm_ConnectionID :: string
  confirm_ProofAck :: Any
  confirm_ProofHeight :: "64 word"

text \<open>
  The event constants the handlers name. Their string values are declared outside the
  source files at hand, so they stay symbolic.
\<close>

datatype event_type =
    EventTypeConnectionOpenInit
  | EventTypeConnectionOpenTry
  | EventTypeConnectionOpenAck
  | EventTypeConnectionOpenConfirm
  | EventTypeMessage

datatype attribute_key =
    AttributeKeyConnectionID
  | AttributeKeyClientID
  | AttributeKeyCounterpartyClientID
  | AttributeKeyModule

datatype attribute_value =
    AttributeString string
  | AttributeValueCategory

type_synonym Attribute = "attribute_key \<times> attribute_value"

record Event =
  ev_Type :: event_type
  ev_Attributes :: "Attribute list"

definition NewAttribute :: "attribute_key \<Rightarrow> attribute_value \<Rightarrow> Attribute" where
  "NewAttribute k v = (k, v)"

definition NewEvent :: "event_type \<Rightarrow> Attribute list \<Rightarrow> Event" where
  "NewEvent ty attrs = \<lparr>ev_Type = ty, ev_Attributes = attrs\<rparr>"

text \<open>
  \<open>sdk.Context\<close>: the state behind it that a keeper reads and writes, and the events
  of its event manager.
\<close>

record 's Context =
  store :: 's
  events :: "Event list"

definition EmitEvents :: "'s Context \<Rightarrow> Event list \<Rightarrow> 's Context" where
  "EmitEvents ctx evs = ctx\<lparr>events := events ctx @ evs\<rparr>"

text \<open>\<open>sdk.Result\<close>; the handlers only set its events.\<close>

record Result =
  res_Events :: "Event list"

text \<open>
  The keeper's four handshake steps are outside the source files at hand; the handlers
  take them as given. A step returns its error (or nil) and the context as it leaves
  it.
\<close>

record 's Keeper =
  ConnOpenInit :: "'s Context \<Rightarrow> string \<Rightarrow> string \<Rightarrow> Counterparty \<Rightarrow> error option \<times> 's Context"
  ConnOpenTry :: "'s Context \<Rightarrow> string \<Rightarrow> Counterparty \<Rightarrow> string \<Rightarrow> string list
      \<Rightarrow> ProofI \<Rightarrow> ProofI \<Rightarrow> 64 word \<Rightarrow> 64 word \<Rightarrow> error option \<times> 's Context"
  ConnOpenAck :: "'s Context \<Rightarrow> string \<Rightarrow> string \<Rightarrow> ProofI \<Rightarrow> ProofI \<Rightarrow> 64 word \<Rightarrow> 64 word
      \<Rightarrow> error option \<times> 's Context"
  ConnOpenConfirm :: "'s Context \<Rightarrow> string \<Rightarrow> ProofI \<Rightarrow> 64 word \<Rightarrow> error option \<times> 's Context"

text \<open>What a handler call comes to: a panic, a returned error, or a returned result.\<close>

datatype 'a outcome = Panic | Failed error | Returned 'a

definition HandleMsgConnectionOpenInit ::
  "'s Context \<Rightarrow> 's Keeper \<Rightarrow> MsgConnectionOpenInit \<Rightarrow> Result outcome \<times> 's Context" where
  "HandleMsgConnectionOpenInit ctx k msg =
     (case ConnOpenInit k ctx (init_ConnectionID msg) (init_ClientID msg) (init_Counterparty msg) of
        (Some err, ctx1) \<Rightarrow> (Failed err, ctx1)
      | (None, ctx1) \<Rightarrow>
          (let ctx2 = EmitEvents ctx1
                 [NewEvent EventTypeConnectionOpenInit
                    [NewAttribute AttributeKeyConnectionID (AttributeString (init_ConnectionID msg)),
                     NewAttribute AttributeKeyClientID (AttributeString (init_ClientID msg)),
                     NewAttribute AttributeKeyCounterpartyClientID
                       (AttributeString (cp_ClientID (init_Counterparty msg)))],
                  NewEvent EventTypeMessage
                    [NewAttribute AttributeKeyModule AttributeValueCategory]]
           in (Returned \<lparr>res_Events = events ctx2\<rparr>, ctx2)))"

definition HandleMsgConnectionOpenTry ::
  "'s Context \<Rightarrow> 's Keeper \<Rightarrow> MsgConnectionOpenTry \<Rightarrow> Result outcome \<times> 's Context" where
  "HandleMsgConnectionOpenTry ctx k msg =
     (case assert_Proof (GetCachedValue (try_ProofInit msg)) of
        None \<Rightarrow> (Panic, ctx)
      | Some proofInit \<Rightarrow>
     (case assert_Proof (GetCachedValue (try_ProofConsensus msg)) of
        None \<Rightarrow> (Panic, ctx)
      | Some proofConsensus \<Rightarrow>
     (case ConnOpenTry k ctx (try_ConnectionID msg) (try_Counterparty msg) (try_ClientID msg)
             (try_CounterpartyVersions msg) proofInit proofConsensus
             (try_ProofHeight msg) (try_ConsensusHeight msg) of
        (Some err, ctx1) \<Rightarrow> (Failed err, ctx1)
      | (None, ctx1) \<Rightarrow>
          (let ctx2 = EmitEvents ctx1
                 [NewEvent EventTypeConnectionOpenTry
                    [NewAttribute AttributeKeyConnectionID (AttributeString (try_ConnectionID msg)),
                     NewAttribute AttributeKeyClientID (AttributeString (try_ClientID msg)),
                     NewAttribute AttributeKeyCounterpartyClientID
                       (AttributeString (cp_ClientID (try_Counterparty msg)))],
                  NewEvent EventTypeMessage
                    [NewAttribute AttributeKeyModule AttributeValueCategory]]
           in (Returned \<lparr>res_Events = events ctx2\<rparr>, ctx2)))))"

definition HandleMsgConnectionOpenAck ::
  "'s Context \<Rightarrow> 's Keeper \<Rightarrow> MsgConnectionOpenAck \<Rightarrow> Result outcome \<times> 's Context" where
  "HandleMsgConnectionOpenAck ctx k msg =
     (case assert_Proof (GetCachedValue (ack_ProofTry msg)) of
        None \<Rightarrow> (Panic, ctx)
      | Some proofTry \<Rightarrow>
     (case assert_Proof (GetCachedValue (ack_ProofConsensus msg)) of
        None \<Rightarrow> (Panic, ctx)
      | Some proofConsensus \<Rightarrow>
     (case ConnOpenAck k ctx (ack_ConnectionID msg) (ack_Version msg) proofTry proofConsensus
             (ack_ProofHeight msg) (ack_ConsensusHeight msg) of
        (Some err, ctx1) \<Rightarrow> (Failed err, ctx1)
      | (None, ctx1) \<Rightarrow>
          (let ctx2 = EmitEvents ctx1
                 [NewEvent EventTypeConnectionOpenAck
                    [NewAttribute AttributeKeyConnectionID (AttributeString (ack_ConnectionID msg))],
                  NewEvent EventTypeMessage
                    [NewAttribute AttributeKeyModule AttributeValueCategory]]
           in (Returned \<lparr>res_Events = events ctx2\<rparr>, ctx2)))))"

definition HandleMsgConnectionOpenConfirm ::
  "'s Context \<Rightarrow> 's Keeper \<Rightarrow> MsgConnectionOpenConfirm \<Rightarrow> Result outcome \<times> 's Context" where
  "HandleMsgConnectionOpenConfirm ctx k msg =
     (case assert_Proof (GetCachedValue (confirm_ProofAck msg)) of
        None \<Rightarrow> (Panic, ctx)
      | Some proofAck \<Rightarrow>
     (case ConnOpenConfirm k ctx (confirm_ConnectionID msg) proofAck (confirm_ProofHeight msg) of
        (Some err, ctx1) \<Rightarrow> (Failed err, ctx1)
      | (None, ctx1) \<Rightarrow>
          (let ctx2 = EmitEvents ctx1
                 [NewEvent EventTypeConnectionOpenConfirm
                    [NewAttribute AttributeKeyConnectionID (AttributeString (confirm_ConnectionID msg))],
                  NewEvent EventTypeMessage
                    [NewAttribute AttributeKeyModule AttributeValueCategory]]
           in (Returned \<lparr>res_Events = events ctx2\<rparr>, ctx2))))"

text \<open>The marker event that every successful handler call emits last.\<close>

definition message_marker :: Event where
  "message_marker = NewEvent EventTypeMessage [NewAttribute AttributeKeyModule AttributeValueCategory]"

text \<open>The handler's result and context after it emitted \<open>evs\<close> on the keeper's context.\<close>

definition emitted :: "'s Context \<Rightarrow> Event list \<Rightarrow> Result outcome \<times> 's Context" where
  "emitted ctx1 evs =
     (Returned \<lparr>res_Events = events ctx1 @ evs\<rparr>, ctx1\<lparr>events := events ctx1 @ evs\<rparr>)"

subsection \<open>A concrete keeper and concrete messages\<close>

text \<open>
  A keeper that rejects the connection identifier \<open>bad\<close> and accepts every other one,
  leaving the context as it is.
\<close>

definition step0 :: "unit Context \<Rightarrow> string \<Rightarrow> error option \<times> unit Context" where
  "step0 ctx cid = (if cid = ''bad'' then Some (Root (ErrKeeper ''rejected'')) else None, ctx)"

definition k0 :: "unit Keeper" where
  "k0 = \<lparr>ConnOpenInit = (\<lambda>ctx cid _ _. step0 ctx cid),
         ConnOpenTry = (\<lambda>ctx cid _ _ _ _ _ _ _. step0 ctx cid),
         ConnOpenAck = (\<lambda>ctx cid _ _ _ _ _. step0 ctx cid),
         ConnOpenConfirm = (\<lambda>ctx cid _ _. step0 ctx cid)\<rparr>"

definition ctx0 :: "unit Context" where
  "ctx0 = \<lparr>store = (), events = []\<rparr>"

definition sig0 :: ProofI where
  "sig0 = SignatureProofI \<lparr>Signature = [1]\<rparr>"

definition any_of :: "cached_value \<Rightarrow> Any" where
  "any_of v = \<lparr>TypeUrl = ''/proof'', AnyValue = [], cachedValue = v\<rparr>"

definition cp0 :: Counterparty where
  "cp0 = \<lparr>cp_ClientID = ''clientB'', cp_ConnectionID = ''c2'', cp_Prefix = []\<rparr>"

definition init_msg :: "string \<Rightarrow> MsgConnectionOpenInit" where
  "init_msg cid = \<lparr>init_ConnectionID = cid, init_ClientID = ''clientA'', init_Counterparty = cp0\<rparr>"

definition try_msg :: "string \<Rightarrow> cached_value \<Rightarrow> MsgConnectionOpenTry" where
  "try_msg cid v = \<lparr>try_ConnectionID = cid, try_ClientID = ''clientA'', try_Counterparty = cp0,
     try_CounterpartyVersions = [''1.0.0''], try_ProofInit = any_of (ProofValue sig0),
     try_ProofConsensus = any_of v, try_ProofHeight = 10, try_ConsensusHeight = 9\<rparr>"

definition ack_msg :: "string \<Rightarrow> cached_value \<Rightarrow> MsgConnectionOpenAck" where
  "ack_msg cid v = \<lparr>ack_ConnectionID = cid, ack_Version = ''1.0.0'', ack_ProofTry = any_of v,
     ack_ProofConsensus = any_of (ProofValue sig0), ack_ProofHeight = 10,
     ack_ConsensusHeight = 9\<rparr>"

definition confirm_msg :: "string \<Rightarrow> cached_value \<Rightarrow> MsgConnectionOpenConfirm" where
  "confirm_msg cid v = \<lparr>confirm_ConnectionID = cid, confirm_ProofAck = any_of v,
     confirm_ProofHeight = 10\<rparr>"

section \<open>Lemmas about the length prefix\<close>

lemma of_nat_mod_128: "(of_nat (unat (x :: 64 word) mod 128) :: byte) = take_bit 7 (ucast x)"
proof -
  have "unat x mod 128 = take_bit 7 (unat x)" by (simp add: take_bit_eq_mod)
  then show ?thesis by (simp add: of_nat_take_bit)
qed

lemma bit_128_byte: "bit (128 :: byte) n \<longleftrightarrow> n = 7"
proof -
  have "(128 :: byte) = 2 ^ 7" by simp
  then show ?thesis by (simp only: bit_exp_iff) (auto simp: possible_bit_word)
qed

lemma take_bit_7_add_128: "(take_bit 7 (y :: byte)) + 128 = take_bit 7 y OR 128"
proof (rule disjunctive_add)
  fix n
  have "bit (128 :: byte) n \<longleftrightarrow> n = 7" by (rule bit_128_byte)
  moreover have "bit (take_bit 7 y) n \<Longrightarrow> n < 7" by (simp only: bit_take_bit_iff)
  ultimately show "\<not> bit (take_bit 7 y) n \<or> \<not> bit (128 :: byte) n" by fastforce
qed

lemma take_bit_7_or_128: "take_bit 7 (y :: byte) OR 128 = y OR 128"
proof (rule bit_word_eqI)
  fix n
  assume "n < LENGTH(8)"
  then have n: "n < 8" by simp
  have b: "bit (128 :: byte) n \<longleftrightarrow> n = 7" by (rule bit_128_byte)
  have "bit (take_bit 7 y OR 128) n \<longleftrightarrow> (n < 7 \<and> bit y n) \<or> n = 7"
    by (simp only: bit_or_iff bit_take_bit_iff b)
  moreover have "bit (y OR 128) n \<longleftrightarrow> bit y n \<or> n = 7"
    by (simp only: bit_or_iff b)
  ultimately show "bit (take_bit 7 y OR 128) n = bit (y OR 128) n"
    using n by (cases "n = 7") auto
qed

lemma byte_or_128: "(ucast (x :: 64 word) OR 128 :: byte) = of_nat (unat x mod 128 + 128)"
proof -
  have "(of_nat (unat x mod 128 + 128) :: byte) = of_nat (unat x mod 128) + 128" by simp
  also have "\<dots> = take_bit 7 (ucast x) + 128" by (simp only: of_nat_mod_128)
  also have "\<dots> = take_bit 7 (ucast x) OR 128" by (rule take_bit_7_add_128)
  also have "\<dots> = ucast x OR 128" by (rule take_bit_7_or_128)
  finally show ?thesis by simp
qed

lemma pow7_step:
  assumes "i < m" and "(n::nat) < 2 ^ (7 * (m - i))" and "128 \<le> n"
  shows "Suc i < m \<and> n div 128 < 2 ^ (7 * (m - Suc i))"
proof -
  have "m - i \<noteq> 1"
  proof
    assume "m - i = 1"
    with assms(2) have "n < 128" by simp
    with assms(3) show False by simp
  qed
  with assms(1) have s: "Suc i < m" by arith
  then have "m - i = Suc (m - Suc i)" by arith
  then have "(2::nat) ^ (7 * (m - i)) = 128 * 2 ^ (7 * (m - Suc i))"
    by (simp add: power_add)
  with assms(2) have "n < 128 * 2 ^ (7 * (m - Suc i))" by simp
  then have "n div 128 < 2 ^ (7 * (m - Suc i))"
    by (simp add: less_mult_imp_div_less mult.commute)
  with s show ?thesis by simp
qed

lemma PutUvarint_loop_varint:
  "i < length buf \<Longrightarrow> unat x < 2 ^ (7 * (length buf - i)) \<Longrightarrow>
   \<exists>buf' x' n. PutUvarint_loop buf x i = Some (buf', x', n) \<and> n < length buf'
      \<and> take n buf' @ [ucast x'] = take i buf @ varint (unat x)"
proof (induction buf x i rule: PutUvarint_loop.induct)
  case (1 buf x i)
  show ?case
  proof (cases "x \<ge> 0x80")
    case False
    then have "unat x < 128" by (simp add: word_le_nat_alt not_le)
    then have "varint (unat x) = [ucast x]" by (simp add: varint.simps)
    with False "1.prems" show ?thesis
      by (simp add: PutUvarint_loop.simps)
  next
    case True
    then have big: "128 \<le> unat x" by (simp add: word_le_nat_alt)
    let ?b = "ucast x OR (0x80 :: byte)"
    have ux: "unat (drop_bit 7 x) = unat x div 128"
      by (simp add: unat_drop_bit_eq drop_bit_eq_div unat_div)
    from pow7_step [OF "1.prems"(1) "1.prems"(2) big]
    have s: "Suc i < length buf" and d: "unat x div 128 < 2 ^ (7 * (length buf - Suc i))"
      by simp_all
    have "\<exists>buf' x' n. PutUvarint_loop (buf[i := ?b]) (drop_bit 7 x) (i + 1) = Some (buf', x', n)
        \<and> n < length buf'
        \<and> take n buf' @ [ucast x'] = take (i + 1) (buf[i := ?b]) @ varint (unat (drop_bit 7 x))"
      using "1.IH" [OF True "1.prems"(1)] s d ux by simp
    then obtain buf' x' n where
      r: "PutUvarint_loop (buf[i := ?b]) (drop_bit 7 x) (i + 1) = Some (buf', x', n)"
      and n: "n < length buf'"
      and t: "take n buf' @ [ucast x'] = take (i + 1) (buf[i := ?b]) @ varint (unat (drop_bit 7 x))"
      by blast
    have "take (i + 1) (buf[i := ?b]) = take i buf @ [?b]"
      using "1.prems"(1) by (simp add: take_Suc_conv_app_nth)
    moreover have "varint (unat x) = ?b # varint (unat x div 128)"
      using big byte_or_128 [of x] by (subst varint.simps) simp
    ultimately have "take n buf' @ [ucast x'] = take i buf @ varint (unat x)"
      using t ux by simp
    moreover have "PutUvarint_loop buf x i = Some (buf', x', n)"
      using True "1.prems"(1) r by (subst PutUvarint_loop.simps) simp
    ultimately show ?thesis using n by blast
  qed
qed

lemma PutUvarint_varint:
  assumes "0 < length buf" and "unat x < 2 ^ (7 * length buf)"
  shows "\<exists>buf' n. PutUvarint buf x = Some (buf', n) \<and> take n buf' = varint (unat x)"
proof -
  from PutUvarint_loop_varint [of 0 buf x] assms
  obtain buf' x' n where r: "PutUvarint_loop buf x 0 = Some (buf', x', n)"
    and n: "n < length buf'" and t: "take n buf' @ [ucast x'] = varint (unat x)"
    by auto
  have "take (n + 1) (buf'[n := ucast x']) = take n buf' @ [ucast x']"
    using n by (simp add: take_Suc_conv_app_nth)
  with r n t show ?thesis by (simp add: PutUvarint_def)
qed

lemma encodeByteSlice_varint:
  assumes "length bz < 2 ^ 56"
  shows "encodeByteSlice w bz = Some (w @ varint (length bz) @ bz)"
proof -
  have u: "unat (of_nat (length bz) :: 64 word) = length bz"
    using assms by (simp add: unat_of_nat take_bit_nat_eq_self)
  have "unat (of_nat (length bz) :: 64 word) < 2 ^ (7 * length (replicate 8 (0::byte)))"
    using assms u by simp
  from PutUvarint_varint [OF _ this]
  obtain buf' n where "PutUvarint (replicate 8 0) (of_nat (length bz)) = Some (buf', n)"
    and "take n buf' = varint (length bz)"
    using u by auto
  then show ?thesis by (simp add: encodeByteSlice_def)
qed

section \<open>Lemmas about sorting and hashing\<close>

lemma bytes_Compare_range: "bytes_Compare a b \<in> {-1, 0, 1}"
  by (induction a b rule: bytes_Compare.induct) auto

lemma bytes_Compare_less: "bytes_Compare a b = -1 \<longleftrightarrow> a < b"
  by (induction a b rule: bytes_Compare.induct) auto

lemma bytes_Compare_eq: "bytes_Compare a b = 0 \<longleftrightarrow> a = b"
  by (induction a b rule: bytes_Compare.induct) auto

lemma bytes_Compare_neg: "bytes_Compare a b < 0 \<longleftrightarrow> a < b"
  using bytes_Compare_range [of a b] bytes_Compare_less [of a b] by auto

lemma Pairs_Less_iff: "Pairs_Less a b \<longleftrightarrow> a < b"
  by (cases a; cases b)
    (auto simp: Pairs_Less_def Let_def bytes_Compare_less bytes_Compare_eq bytes_Compare_neg)

lemma Pairs_insert_insort: "Pairs_insert p qs = insort p qs"
  by (induction qs) (auto simp: Pairs_Less_iff)

lemma Pairs_Sort_sort: "Pairs_Sort ps = sort ps"
  by (induction ps) (simp_all add: Pairs_insert_insort)

lemma Pairs_Sort_mset: "mset (Pairs_Sort ps) = mset ps"
  by (simp add: Pairs_Sort_sort)

lemma Pairs_Sort_sorted_keys: "sorted (map Key (Pairs_Sort ps))"
proof -
  have "sorted (sort ps)" by simp
  moreover have "\<And>a b :: kv_Pair. a \<le> b \<Longrightarrow> Key a \<le> Key b"
    by (auto simp: less_eq_prod_def)
  ultimately show ?thesis
    by (simp add: Pairs_Sort_sort sorted_map sorted_wrt_mono_rel [of _ "(\<le>)"])
qed

lemma Pairs_Sort_perm: "mset ps = mset qs \<Longrightarrow> Pairs_Sort ps = Pairs_Sort qs"
proof -
  assume "mset ps = mset qs"
  then have "mset (sort qs) = mset ps" by simp
  then have "sort ps = sort qs" by (rule properties_for_sort) simp
  then show ?thesis by (simp add: Pairs_Sort_sort)
qed

lemma kvPair_bytes_leaf:
  assumes "length (Key kv) < 2 ^ 56" and "length (Value kv) < 2 ^ 56"
  shows "kvPair_bytes kv = Some (leaf kv)"
  using assms by (simp add: kvPair_bytes_def leaf_def encodeByteSlice_varint)

lemma kvs_bytes_leaves:
  assumes "\<forall>kv \<in> set kvs. length (Key kv) < 2 ^ 56 \<and> length (Value kv) < 2 ^ 56"
  shows "kvs_bytes kvs = Some (map leaf kvs)"
  using assms by (induction kvs) (simp_all add: kvPair_bytes_leaf)

lemma hashKVPairs_leaves:
  assumes "\<forall>kv \<in> set kvs. length (Key kv) < 2 ^ 56 \<and> length (Value kv) < 2 ^ 56"
  shows "hashKVPairs H kvs = Some (H (map leaf kvs))"
  using assms by (simp add: hashKVPairs_def kvs_bytes_leaves)

lemma simpleMap_SetAll_kvs:
  "sm_kvs (simpleMap_SetAll S sm ps) = sm_kvs sm @ map (stored S) ps"
  by (induction ps arbitrary: sm) (auto simp: simpleMap_Set_def stored_def)

lemma simpleMap_SetAll_sorted:
  "sm_sorted (simpleMap_SetAll S sm ps) = (ps = [] \<and> sm_sorted sm)"
  by (induction ps arbitrary: sm) (auto simp: simpleMap_Set_def)

lemma merkleMap_setAll_kvs:
  "mm_kvs (merkleMap_setAll S sm ps) = mm_kvs sm @ map (stored S) ps"
  by (induction ps arbitrary: sm) (auto simp: merkleMap_set_def stored_def)

lemma merkleMap_setAll_sorted:
  "mm_sorted (merkleMap_setAll S sm ps) = (ps = [] \<and> mm_sorted sm)"
  by (induction ps arbitrary: sm) (auto simp: merkleMap_set_def)

lemma simpleMap_Hash_fresh:
  "map_option fst (simpleMap_Hash H (simpleMap_SetAll S newSimpleMap ps))
     = hashKVPairs H (Pairs_Sort (map (stored S) ps))"
  by (simp add: simpleMap_Hash_def simpleMap_Sort_def simpleMap_SetAll_kvs
      simpleMap_SetAll_sorted newSimpleMap_def split: option.splits)

lemma merkleMap_hash_fresh:
  "map_option fst (merkleMap_hash H (merkleMap_setAll S newMerkleMap ps))
     = hashKVPairs H (Pairs_Sort (map (stored S) ps))"
  by (simp add: merkleMap_hash_def merkleMap_sort_def merkleMap_setAll_kvs
      merkleMap_setAll_sorted newMerkleMap_def split: option.splits)

section \<open>Results about the signature proof\<close>

text \<open>
  C7. For every signature proof, \<open>ValidateBasic\<close> returns the InvalidProof error exactly
  when the wrapped signature is empty and returns no error for every non-empty signature,
  while \<open>VerifyMembership\<close> and \<open>VerifyNonMembership\<close> return no error for every root,
  path and expected value, also when the signature is empty.
\<close>

theorem signature_proof_contract:
  "(ValidateBasic p = Some (Root ErrInvalidProof)) = (Signature p = [])
   \<and> (ValidateBasic p = None) = (Signature p \<noteq> [])
   \<and> VerifyMembership p root path val = None
   \<and> VerifyNonMembership p root path = None
   \<and> VerifyMembership \<lparr>Signature = []\<rparr> root path val = None
   \<and> VerifyNonMembership \<lparr>Signature = []\<rparr> root path = None"
  by (simp add: ValidateBasic_def IsEmpty_def VerifyMembership_def VerifyNonMembership_def)

section \<open>Results about the Merkle root builder\<close>

lemma simpleMap_Hash_perm:
  assumes "mset ps = mset qs"
  shows "map_option fst (simpleMap_Hash H (simpleMap_SetAll S newSimpleMap ps))
       = map_option fst (simpleMap_Hash H (simpleMap_SetAll S newSimpleMap qs))"
proof -
  from assms have "mset (map (stored S) ps) = mset (map (stored S) qs)"
    by (metis mset_map)
  then have "Pairs_Sort (map (stored S) ps) = Pairs_Sort (map (stored S) qs)"
    by (rule Pairs_Sort_perm)
  then show ?thesis by (simp only: simpleMap_Hash_fresh)
qed

lemma Pairs_Sort_set: "set (Pairs_Sort ps) = set ps"
  by (simp add: Pairs_Sort_sort)

lemma simpleMap_Hash_result:
  assumes "\<forall>kv \<in> set (sm_kvs sm). length (Key kv) < 2 ^ 56 \<and> length (Value kv) < 2 ^ 56"
  shows "simpleMap_Hash H sm =
     (let kvs = (if sm_sorted sm then sm_kvs sm else Pairs_Sort (sm_kvs sm))
      in Some (H (map leaf kvs), sm\<lparr>sm_kvs := kvs, sm_sorted := True\<rparr>))"
proof (cases "sm_sorted sm")
  case True
  then have "simpleMap_Sort sm = sm" by (simp add: simpleMap_Sort_def)
  moreover have "sm\<lparr>sm_kvs := sm_kvs sm, sm_sorted := True\<rparr> = sm" using True by simp
  ultimately show ?thesis
    using True assms by (simp add: simpleMap_Hash_def hashKVPairs_leaves Let_def)
next
  case False
  have "\<forall>kv \<in> set (Pairs_Sort (sm_kvs sm)). length (Key kv) < 2 ^ 56 \<and> length (Value kv) < 2 ^ 56"
    using assms by (simp only: Pairs_Sort_set)
  then have "hashKVPairs H (Pairs_Sort (sm_kvs sm)) = Some (H (map leaf (Pairs_Sort (sm_kvs sm))))"
    by (rule hashKVPairs_leaves)
  with False show ?thesis
    by (simp add: simpleMap_Hash_def simpleMap_Sort_def Let_def)
qed

text \<open>
  C5. For every list of (key, value) pairs with pairwise distinct keys and every other
  order of the same pairs, inserting them with \<open>Set\<close> into two fresh simpleMaps and
  calling \<open>Hash\<close> on each returns the same root bytes. In particular the keys b, a, c
  with the values 2, 1, 3 and the keys a, c, b with the matching values give the same
  root.
\<close>

theorem simpleMap_Hash_order_independent:
  assumes "distinct (map fst ps)" and "mset ps = mset qs"
  shows "map_option fst (simpleMap_Hash H (simpleMap_SetAll S newSimpleMap ps))
         = map_option fst (simpleMap_Hash H (simpleMap_SetAll S newSimpleMap qs))
       \<and> map_option fst (simpleMap_Hash H
            (simpleMap_Set S (simpleMap_Set S (simpleMap_Set S newSimpleMap
               ''b'' (bytes_of_string ''2'')) ''a'' (bytes_of_string ''1''))
               ''c'' (bytes_of_string ''3'')))
         = map_option fst (simpleMap_Hash H
            (simpleMap_Set S (simpleMap_Set S (simpleMap_Set S newSimpleMap
               ''a'' (bytes_of_string ''1'')) ''c'' (bytes_of_string ''3''))
               ''b'' (bytes_of_string ''2'')))"
proof
  show "map_option fst (simpleMap_Hash H (simpleMap_SetAll S newSimpleMap ps))
      = map_option fst (simpleMap_Hash H (simpleMap_SetAll S newSimpleMap qs))"
    using assms(2) by (rule simpleMap_Hash_perm)
next
  let ?ps = "[(''b'', bytes_of_string ''2''), (''a'', bytes_of_string ''1''),
              (''c'', bytes_of_string ''3'')]"
  let ?qs = "[(''a'', bytes_of_string ''1''), (''c'', bytes_of_string ''3''),
              (''b'', bytes_of_string ''2'')]"
  have "mset ?ps = mset ?qs" by simp
  then have "map_option fst (simpleMap_Hash H (simpleMap_SetAll S newSimpleMap ?ps))
           = map_option fst (simpleMap_Hash H (simpleMap_SetAll S newSimpleMap ?qs))"
    by (rule simpleMap_Hash_perm)
  then show "map_option fst (simpleMap_Hash H
            (simpleMap_Set S (simpleMap_Set S (simpleMap_Set S newSimpleMap
               ''b'' (bytes_of_string ''2'')) ''a'' (bytes_of_string ''1''))
               ''c'' (bytes_of_string ''3'')))
         = map_option fst (simpleMap_Hash H
            (simpleMap_Set S (simpleMap_Set S (simpleMap_Set S newSimpleMap
               ''a'' (bytes_of_string ''1'')) ''c'' (bytes_of_string ''3''))
               ''b'' (bytes_of_string ''2'')))"
    by simp
qed

theorem simpleMap_Hash_order_independent_witness:
  "distinct (map fst [(''b'', [0x32 :: byte]), (''a'', [0x31]), (''c'', [0x33])])
   \<and> mset [(''b'', [0x32 :: byte]), (''a'', [0x31]), (''c'', [0x33])]
       = mset [(''a'', [0x31]), (''c'', [0x33]), (''b'', [0x32])]
   \<and> map_option fst (simpleMap_Hash concat (simpleMap_SetAll (\<lambda>v. 0 # v) newSimpleMap
        [(''b'', [0x32]), (''a'', [0x31]), (''c'', [0x33])]))
     = Some [1, 97, 2, 0, 49, 1, 98, 2, 0, 50, 1, 99, 2, 0, 51]
   \<and> map_option fst (simpleMap_Hash concat (simpleMap_SetAll (\<lambda>v. 0 # v) newSimpleMap
        [(''a'', [0x31]), (''c'', [0x33]), (''b'', [0x32])]))
     = Some [1, 97, 2, 0, 49, 1, 98, 2, 0, 50, 1, 99, 2, 0, 51]"
proof -
  let ?ps = "[(''b'', [0x32 :: byte]), (''a'', [0x31]), (''c'', [0x33])]"
  let ?qs = "[(''a'', [0x31 :: byte]), (''c'', [0x33]), (''b'', [0x32])]"
  have d: "distinct (map fst ?ps)" by simp
  have m: "mset ?ps = mset ?qs" by simp
  have v: "map_option fst (simpleMap_Hash concat (simpleMap_SetAll (\<lambda>v. 0 # v) newSimpleMap ?ps))
     = Some [1, 97, 2, 0, 49, 1, 98, 2, 0, 50, 1, 99, 2, 0, 51]"
    by code_simp
  from simpleMap_Hash_order_independent [OF d m, of concat "\<lambda>v. 0 # v"] v d m
  show ?thesis by simp
qed

text \<open>
  C6. For every builder state whose keys and hashed values are shorter than 2^56 bytes
  (so that the eight-byte length buffer suffices), \<open>Hash\<close> sorts the pairs when the
  builder is dirty, the sorted pairs being the same pairs in lexicographic order of
  their key bytes, builds for each pair in that order the leaf
  varint(len(key)) || key || varint(len(hashedValue)) || hashedValue with
  protocol-buffer unsigned varints, and returns the Merkle hash of that list of
  leaves; the hashed value is the hash of the value taken by \<open>Set\<close>.
\<close>

theorem simpleMap_Hash_leaves:
  assumes "\<forall>kv \<in> set (sm_kvs sm). length (Key kv) < 2 ^ 56 \<and> length (Value kv) < 2 ^ 56"
  shows "simpleMap_Hash H sm =
           (let kvs = (if sm_sorted sm then sm_kvs sm else Pairs_Sort (sm_kvs sm))
            in Some (H (map leaf kvs), sm\<lparr>sm_kvs := kvs, sm_sorted := True\<rparr>))
       \<and> sorted (map Key (Pairs_Sort (sm_kvs sm)))
       \<and> mset (Pairs_Sort (sm_kvs sm)) = mset (sm_kvs sm)
       \<and> leaf (k, hv) = varint (length k) @ k @ varint (length hv) @ hv
       \<and> varint n = (if n < 128 then [of_nat n]
                      else of_nat (n mod 128 + 128) # varint (n div 128))
       \<and> simpleMap_Set S sm key val =
           sm\<lparr>sm_kvs := sm_kvs sm @ [(bytes_of_string key, S val)], sm_sorted := False\<rparr>"
proof -
  have "simpleMap_Set S sm key val =
      sm\<lparr>sm_kvs := sm_kvs sm @ [(bytes_of_string key, S val)], sm_sorted := False\<rparr>"
    by (simp add: simpleMap_Set_def)
  moreover have "leaf (k, hv) = varint (length k) @ k @ varint (length hv) @ hv"
    by (simp add: leaf_def)
  moreover have "varint n = (if n < 128 then [of_nat n]
                      else of_nat (n mod 128 + 128) # varint (n div 128))"
    by (rule varint.simps)
  moreover note simpleMap_Hash_result [OF assms, of H]
    Pairs_Sort_sorted_keys [of "sm_kvs sm"] Pairs_Sort_mset [of "sm_kvs sm"]
  ultimately show ?thesis by blast
qed

theorem simpleMap_Hash_leaves_witness:
  "list_all (\<lambda>kv. length (Key kv) < 2 ^ 56 \<and> length (Value kv) < 2 ^ 56)
      [([98 :: byte], [0 :: byte, 50]), ([97], [0, 49])]
   \<and> simpleMap_Hash concat \<lparr>sm_kvs = [([98], [0, 50]), ([97], [0, 49])], sm_sorted = False\<rparr>
     = Some ([1, 97, 2, 0, 49, 1, 98, 2, 0, 50],
         \<lparr>sm_kvs = [([97], [0, 49]), ([98], [0, 50])], sm_sorted = True\<rparr>)"
proof -
  let ?sm = "\<lparr>sm_kvs = [([98 :: byte], [0 :: byte, 50]), ([97], [0, 49])], sm_sorted = False\<rparr>"
  have h: "\<forall>kv \<in> set (sm_kvs ?sm). length (Key kv) < 2 ^ 56 \<and> length (Value kv) < 2 ^ 56"
    by simp
  have s: "Pairs_Sort [([98 :: byte], [0 :: byte, 50]), ([97], [0, 49])]
      = [([97], [0, 49]), ([98], [0, 50])]"
    by code_simp
  have l: "concat (map leaf [([97 :: byte], [0 :: byte, 49]), ([98], [0, 50])])
      = [1, 97, 2, 0, 49, 1, 98, 2, 0, 50]"
    by code_simp
  from simpleMap_Hash_leaves [OF h, of concat] s l h show ?thesis
    by (simp add: Let_def)
qed

text \<open>
  C10. For every sequence of (key, value) insertions, applying it to a fresh merkleMap
  with \<open>set\<close> and calling \<open>hash\<close> returns the same root bytes (or panics in the same
  cases) as applying it to a fresh simpleMap with \<open>Set\<close> and calling \<open>Hash\<close>.
\<close>

theorem merkleMap_simpleMap_equivalent:
  "map_option fst (merkleMap_hash H (merkleMap_setAll S newMerkleMap ps))
   = map_option fst (simpleMap_Hash H (simpleMap_SetAll S newSimpleMap ps))"
  by (simp only: merkleMap_hash_fresh simpleMap_Hash_fresh)

section \<open>Results about misbehaviour detection\<close>

lemma time_Sub_in_range:
  assumes "minDuration \<le> t - u" and "t - u \<le> maxDuration"
  shows "time_Sub t u = t - u"
  using assms by (simp add: time_Sub_def)

lemma time_Sub_ge_iff:
  assumes "minDuration < p" and "p \<le> maxDuration"
  shows "p \<le> time_Sub t u \<longleftrightarrow> p \<le> t - u"
  using assms by (auto simp add: time_Sub_def Let_def)

lemma checkMisbehaviour_ok:
  assumes "height \<le> uint64 (ClaimedHeight ev)"
    and "time_Sub now (Timestamp cons) < UnbondingPeriod cs"
    and "ValidatorSetFromProto tm (ValidatorSet cons) = Inr valset"
    and "SignedHeaderFromProto tm (Header1 ev) = Inr sh1"
    and "SignedHeaderFromProto tm (Header2 ev) = Inr sh2"
    and "VerifyCommitTrusting tm valset (ChainID ev) sh1 (TrustLevel cs) = None"
    and "VerifyCommitTrusting tm valset (ChainID ev) sh2 (TrustLevel cs) = None"
  shows "checkMisbehaviour tm cs cons ev height now = None"
  using assms by (simp add: checkMisbehaviour_def not_less [symmetric])

lemma checkMisbehaviour_expired:
  assumes "height \<le> uint64 (ClaimedHeight ev)"
    and "time_Sub now (Timestamp cons) \<ge> UnbondingPeriod cs"
  shows "checkMisbehaviour tm cs cons ev height now
         = Some (unbonding_error (time_Sub now (Timestamp cons)) (UnbondingPeriod cs))"
  using assms by (simp add: checkMisbehaviour_def unbonding_error_def not_less [symmetric])


lemma CheckMisbehaviour_tendermint:
  assumes "\<not> (IsFrozen cs \<and> FrozenHeight cs \<le> uint64 (ClaimedHeight ev))"
  shows "CheckMisbehaviourAndUpdateState tm (TendermintClientState cs)
           (TendermintConsensusState cons) (TendermintEvidence ev) height now
         = (case checkMisbehaviour tm cs cons ev height now of
              Some err \<Rightarrow> Inl (WrapText (Root ErrInvalidEvidence) err)
            | None \<Rightarrow> Inr (TendermintClientState (cs\<lparr>FrozenHeight := uint64 (ClaimedHeight ev)\<rparr>)))"
  using assms by (auto simp add: CheckMisbehaviourAndUpdateState_def)


lemmas example_defs = tm0_def cs_at_def cons0_def ev_at_def IsFrozen_def uint64_def
  time_Sub_def maxDuration_def minDuration_def

text \<open>
  C1. For every call with a Tendermint client state, consensus state and evidence in
  which the client is not already frozen at a height at or below the evidence height,
  the reference height is at most the evidence height, the unbonding period has not
  expired, the validator set and both signed headers decode, and both commits pass the
  trust-level verification against the trusted validator set, the call succeeds and the
  returned client state has \<open>FrozenHeight\<close> equal to the evidence height.
\<close>

theorem misbehaviour_success_freezes:
  assumes "\<not> (IsFrozen cs \<and> FrozenHeight cs \<le> uint64 (ClaimedHeight ev))"
    and "height \<le> uint64 (ClaimedHeight ev)"
    and "time_Sub now (Timestamp cons) < UnbondingPeriod cs"
    and "ValidatorSetFromProto tm (ValidatorSet cons) = Inr valset"
    and "SignedHeaderFromProto tm (Header1 ev) = Inr sh1"
    and "SignedHeaderFromProto tm (Header2 ev) = Inr sh2"
    and "VerifyCommitTrusting tm valset (ChainID ev) sh1 (TrustLevel cs) = None"
    and "VerifyCommitTrusting tm valset (ChainID ev) sh2 (TrustLevel cs) = None"
  shows "CheckMisbehaviourAndUpdateState tm (TendermintClientState cs)
           (TendermintConsensusState cons) (TendermintEvidence ev) height now
         = Inr (TendermintClientState (cs\<lparr>FrozenHeight := uint64 (ClaimedHeight ev)\<rparr>))"
proof -
  have "checkMisbehaviour tm cs cons ev height now = None"
    using assms(2-8) by (rule checkMisbehaviour_ok)
  then show ?thesis
    using assms(1) by (simp add: CheckMisbehaviour_tendermint)
qed

theorem misbehaviour_success_freezes_witness:
  "CheckMisbehaviourAndUpdateState tm0 (TendermintClientState (cs_at 0))
     (TendermintConsensusState cons0) (TendermintEvidence (ev_at 7)) 3 100
   = Inr (TendermintClientState (cs_at 7))"
proof -
  have "CheckMisbehaviourAndUpdateState tm0 (TendermintClientState (cs_at 0))
     (TendermintConsensusState cons0) (TendermintEvidence (ev_at 7)) 3 100
   = Inr (TendermintClientState ((cs_at 0)\<lparr>FrozenHeight := uint64 (ClaimedHeight (ev_at 7))\<rparr>))"
    by (rule misbehaviour_success_freezes [where valset = "()" and ?sh1.0 = "()" and ?sh2.0 = "()"])
      (simp_all add: example_defs)
  then show ?thesis by (simp add: example_defs)
qed









text \<open>
  C3, as the code has it. The unbonding check is the second check of
  \<open>checkMisbehaviour\<close> and runs after the type casts and the frozen guard of
  \<open>CheckMisbehaviourAndUpdateState\<close>: for Tendermint inputs, a client not frozen at or
  below the evidence height and a reference height at most the evidence height, a
  current time at or past the unbonding period makes \<open>checkMisbehaviour\<close> return the
  UnbondingPeriodExpired error, and the call fails with InvalidEvidence carrying the
  text of that error, whatever the decoding and the verification of the headers would
  give.
\<close>

theorem unbonding_expired_rejected:
  assumes "\<not> (IsFrozen cs \<and> FrozenHeight cs \<le> uint64 (ClaimedHeight ev))"
    and "height \<le> uint64 (ClaimedHeight ev)"
    and "UnbondingPeriod cs \<le> time_Sub now (Timestamp cons)"
  shows "checkMisbehaviour tm cs cons ev height now
           = Some (unbonding_error (time_Sub now (Timestamp cons)) (UnbondingPeriod cs))
       \<and> err_Is (unbonding_error (time_Sub now (Timestamp cons)) (UnbondingPeriod cs))
           ErrUnbondingPeriodExpired
       \<and> CheckMisbehaviourAndUpdateState tm (TendermintClientState cs)
           (TendermintConsensusState cons) (TendermintEvidence ev) height now
           = Inl (WrapText (Root ErrInvalidEvidence)
                   (unbonding_error (time_Sub now (Timestamp cons)) (UnbondingPeriod cs)))"
proof -
  have c: "checkMisbehaviour tm cs cons ev height now
      = Some (unbonding_error (time_Sub now (Timestamp cons)) (UnbondingPeriod cs))"
    using assms(2,3) by (rule checkMisbehaviour_expired)
  moreover have "err_Is (unbonding_error (time_Sub now (Timestamp cons)) (UnbondingPeriod cs))
           ErrUnbondingPeriodExpired"
    by (simp add: unbonding_error_def)
  moreover have "CheckMisbehaviourAndUpdateState tm (TendermintClientState cs)
           (TendermintConsensusState cons) (TendermintEvidence ev) height now
           = Inl (WrapText (Root ErrInvalidEvidence)
                   (unbonding_error (time_Sub now (Timestamp cons)) (UnbondingPeriod cs)))"
    using assms(1) c by (simp add: CheckMisbehaviour_tendermint)
  ultimately show ?thesis by blast
qed

theorem unbonding_expired_rejected_witness:
  "CheckMisbehaviourAndUpdateState tm0 (TendermintClientState (cs_at 0))
     (TendermintConsensusState cons0) (TendermintEvidence (ev_at 7)) 3 105
   = Inl (WrapText (Root ErrInvalidEvidence) (unbonding_error 10 10))"
proof -
  have "CheckMisbehaviourAndUpdateState tm0 (TendermintClientState (cs_at 0))
     (TendermintConsensusState cons0) (TendermintEvidence (ev_at 7)) 3 105
   = Inl (WrapText (Root ErrInvalidEvidence)
       (unbonding_error (time_Sub 105 (Timestamp cons0)) (UnbondingPeriod (cs_at 0))))"
    using unbonding_expired_rejected [of "cs_at 0" "ev_at 7" 3 105 cons0 tm0]
    by (simp add: example_defs)
  then show ?thesis by (simp add: example_defs)
qed

text \<open>
  The claim as the specification states it fails: with the unbonding period expired but
  a reference height above the evidence height, the call fails with the InvalidHeight
  error, and UnbondingPeriodExpired appears nowhere in it.
\<close>

theorem unbonding_expired_counterexample:
  "UnbondingPeriod (cs_at 0) \<le> time_Sub 105 (Timestamp cons0)
   \<and> CheckMisbehaviourAndUpdateState tm0 (TendermintClientState (cs_at 0))
       (TendermintConsensusState cons0) (TendermintEvidence (ev_at 7)) 9 105
     = Inl (WrapText (Root ErrInvalidEvidence)
         (Wrapf (Root ErrInvalidHeight) ''height > evidence header height (%d > %d)''
            [ArgUint64 9, ArgInt64 7]))
   \<and> \<not> err_mentions (WrapText (Root ErrInvalidEvidence)
         (Wrapf (Root ErrInvalidHeight) ''height > evidence header height (%d > %d)''
            [ArgUint64 9, ArgInt64 7])) ErrUnbondingPeriodExpired"
  by (simp add: CheckMisbehaviourAndUpdateState_def checkMisbehaviour_def example_defs)

text \<open>
  C4, as the code has it. A client state that is not Tendermint is rejected with
  InvalidClientType before every other check. The frozen guard runs next, on the cast
  client state and the evidence's height, before the other two casts: a consensus state
  or evidence that is not Tendermint is rejected with InvalidClientType when the client
  is not frozen at or below the evidence height, and in every case before the checks of
  \<open>checkMisbehaviour\<close> (reference height, unbonding period, decoding, verification).
\<close>

theorem type_mismatch_rejected:
  "CheckMisbehaviourAndUpdateState tm (OtherClientState n) consI mb height now
     = Inl (Wrap (Root ErrInvalidClientType) ''client state type is not Tendermint'')
   \<and> (\<not> (IsFrozen cs \<and> FrozenHeight cs \<le> uint64 (GetHeight mb)) \<longrightarrow>
        CheckMisbehaviourAndUpdateState tm (TendermintClientState cs)
          (OtherConsensusState n) mb height now
        = Inl (Wrap (Root ErrInvalidClientType) ''consensus state is not Tendermint''))
   \<and> (\<not> (IsFrozen cs \<and> FrozenHeight cs \<le> uint64 h) \<longrightarrow>
        CheckMisbehaviourAndUpdateState tm (TendermintClientState cs)
          (TendermintConsensusState cons) (OtherMisbehaviour h) height now
        = Inl (Wrap (Root ErrInvalidClientType) ''evidence type is not Tendermint''))"
  by (simp add: CheckMisbehaviourAndUpdateState_def)

theorem type_mismatch_rejected_witness:
  "CheckMisbehaviourAndUpdateState tm0 (TendermintClientState (cs_at 5))
     (OtherConsensusState ''solomachine'') (TendermintEvidence (ev_at 3)) 9 105
     = Inl (Wrap (Root ErrInvalidClientType) ''consensus state is not Tendermint'')
   \<and> CheckMisbehaviourAndUpdateState tm0 (TendermintClientState (cs_at 0))
     (TendermintConsensusState cons0) (OtherMisbehaviour 7) 9 105
     = Inl (Wrap (Root ErrInvalidClientType) ''evidence type is not Tendermint'')"
proof -
  have a: "\<not> (IsFrozen (cs_at 5)
      \<and> FrozenHeight (cs_at 5) \<le> uint64 (GetHeight (TendermintEvidence (ev_at 3 :: bool Evidence))))"
    by (simp add: example_defs)
  have b: "\<not> (IsFrozen (cs_at 0) \<and> FrozenHeight (cs_at 0) \<le> uint64 7)"
    by (simp add: example_defs)
  from type_mismatch_rejected
    [where tm = tm0 and mb = "TendermintEvidence (ev_at 3)" and height = 9 and now = 105
       and cs = "cs_at 5" and n = "''solomachine''"] a
  have 1: "CheckMisbehaviourAndUpdateState tm0 (TendermintClientState (cs_at 5))
     (OtherConsensusState ''solomachine'') (TendermintEvidence (ev_at 3)) 9 105
     = Inl (Wrap (Root ErrInvalidClientType) ''consensus state is not Tendermint'')"
    by blast
  from type_mismatch_rejected
    [where tm = tm0 and height = 9 and now = 105 and cs = "cs_at 0" and h = 7
       and cons = cons0] b
  have 2: "CheckMisbehaviourAndUpdateState tm0 (TendermintClientState (cs_at 0))
     (TendermintConsensusState cons0) (OtherMisbehaviour 7) 9 105
     = Inl (Wrap (Root ErrInvalidClientType) ''evidence type is not Tendermint'')"
    by blast
  from 1 2 show ?thesis by blast
qed

text \<open>
  The claim as the specification states it fails: a client frozen at height 5, evidence
  at height 10 and a consensus state that is not Tendermint are rejected by the frozen
  guard with InvalidEvidence, not with InvalidClientType.
\<close>

theorem type_mismatch_counterexample:
  "CheckMisbehaviourAndUpdateState tm0 (TendermintClientState (cs_at 5))
     (OtherConsensusState ''solomachine'') (TendermintEvidence (ev_at 10)) 1 100
     = Inl (frozen_error (cs_at 5) (TendermintEvidence (ev_at 10)))
   \<and> \<not> err_mentions (frozen_error (cs_at 5) (TendermintEvidence (ev_at 10)))
         ErrInvalidClientType
   \<and> err_Is (frozen_error (cs_at 5) (TendermintEvidence (ev_at 10))) ErrInvalidEvidence"
  by (simp add: CheckMisbehaviourAndUpdateState_def frozen_error_def example_defs)

section \<open>Results about the handshake handlers\<close>

lemmas handler_example_defs = step0_def k0_def ctx0_def sig0_def any_of_def cp0_def init_msg_def
  try_msg_def ack_msg_def confirm_msg_def GetCachedValue_def

lemma HandleMsgConnectionOpenInit_events:
  "(ConnOpenInit k ctx (init_ConnectionID m) (init_ClientID m) (init_Counterparty m) = (Some err, ctx1)
      \<longrightarrow> HandleMsgConnectionOpenInit ctx k m = (Failed err, ctx1))
   \<and> (ConnOpenInit k ctx (init_ConnectionID m) (init_ClientID m) (init_Counterparty m) = (None, ctx1)
      \<longrightarrow> HandleMsgConnectionOpenInit ctx k m =
          emitted ctx1
            [NewEvent EventTypeConnectionOpenInit
               [(AttributeKeyConnectionID, AttributeString (init_ConnectionID m)),
                (AttributeKeyClientID, AttributeString (init_ClientID m)),
                (AttributeKeyCounterpartyClientID, AttributeString (cp_ClientID (init_Counterparty m)))],
             message_marker])"
  by (simp add: HandleMsgConnectionOpenInit_def emitted_def message_marker_def EmitEvents_def
      NewAttribute_def Let_def)

lemma HandleMsgConnectionOpenTry_events:
  assumes "assert_Proof (GetCachedValue (try_ProofInit m)) = Some p1"
    and "assert_Proof (GetCachedValue (try_ProofConsensus m)) = Some p2"
  shows "(ConnOpenTry k ctx (try_ConnectionID m) (try_Counterparty m) (try_ClientID m)
             (try_CounterpartyVersions m) p1 p2 (try_ProofHeight m) (try_ConsensusHeight m)
           = (Some err, ctx1)
      \<longrightarrow> HandleMsgConnectionOpenTry ctx k m = (Failed err, ctx1))
   \<and> (ConnOpenTry k ctx (try_ConnectionID m) (try_Counterparty m) (try_ClientID m)
             (try_CounterpartyVersions m) p1 p2 (try_ProofHeight m) (try_ConsensusHeight m)
           = (None, ctx1)
      \<longrightarrow> HandleMsgConnectionOpenTry ctx k m =
          emitted ctx1
            [NewEvent EventTypeConnectionOpenTry
               [(AttributeKeyConnectionID, AttributeString (try_ConnectionID m)),
                (AttributeKeyClientID, AttributeString (try_ClientID m)),
                (AttributeKeyCounterpartyClientID, AttributeString (cp_ClientID (try_Counterparty m)))],
             message_marker])"
  using assms
  by (simp add: HandleMsgConnectionOpenTry_def emitted_def message_marker_def EmitEvents_def
      NewAttribute_def Let_def)

lemma HandleMsgConnectionOpenAck_events:
  assumes "assert_Proof (GetCachedValue (ack_ProofTry m)) = Some p1"
    and "assert_Proof (GetCachedValue (ack_ProofConsensus m)) = Some p2"
  shows "(ConnOpenAck k ctx (ack_ConnectionID m) (ack_Version m) p1 p2
             (ack_ProofHeight m) (ack_ConsensusHeight m) = (Some err, ctx1)
      \<longrightarrow> HandleMsgConnectionOpenAck ctx k m = (Failed err, ctx1))
   \<and> (ConnOpenAck k ctx (ack_ConnectionID m) (ack_Version m) p1 p2
             (ack_ProofHeight m) (ack_ConsensusHeight m) = (None, ctx1)
      \<longrightarrow> HandleMsgConnectionOpenAck ctx k m =
          emitted ctx1
            [NewEvent EventTypeConnectionOpenAck
               [(AttributeKeyConnectionID, AttributeString (ack_ConnectionID m))],
             message_marker])"
  using assms
  by (simp add: HandleMsgConnectionOpenAck_def emitted_def message_marker_def EmitEvents_def
      NewAttribute_def Let_def)

lemma HandleMsgConnectionOpenConfirm_events:
  assumes "assert_Proof (GetCachedValue (confirm_ProofAck m)) = Some p1"
  shows "(ConnOpenConfirm k ctx (confirm_ConnectionID m) p1 (confirm_ProofHeight m) = (Some err, ctx1)
      \<longrightarrow> HandleMsgConnectionOpenConfirm ctx k m = (Failed err, ctx1))
   \<and> (ConnOpenConfirm k ctx (confirm_ConnectionID m) p1 (confirm_ProofHeight m) = (None, ctx1)
      \<longrightarrow> HandleMsgConnectionOpenConfirm ctx k m =
          emitted ctx1
            [NewEvent EventTypeConnectionOpenConfirm
               [(AttributeKeyConnectionID, AttributeString (confirm_ConnectionID m))],
             message_marker])"
  using assms
  by (simp add: HandleMsgConnectionOpenConfirm_def emitted_def message_marker_def EmitEvents_def
      NewAttribute_def Let_def)

lemma HandleMsgConnectionOpenTry_panic:
  assumes "assert_Proof (GetCachedValue (try_ProofInit m)) = None
           \<or> assert_Proof (GetCachedValue (try_ProofConsensus m)) = None"
  shows "HandleMsgConnectionOpenTry ctx k m = (Panic, ctx)"
  using assms by (auto simp add: HandleMsgConnectionOpenTry_def split: option.splits)

lemma HandleMsgConnectionOpenAck_panic:
  assumes "assert_Proof (GetCachedValue (ack_ProofTry m)) = None
           \<or> assert_Proof (GetCachedValue (ack_ProofConsensus m)) = None"
  shows "HandleMsgConnectionOpenAck ctx k m = (Panic, ctx)"
  using assms by (auto simp add: HandleMsgConnectionOpenAck_def split: option.splits)

lemma HandleMsgConnectionOpenConfirm_panic:
  assumes "assert_Proof (GetCachedValue (confirm_ProofAck m)) = None"
  shows "HandleMsgConnectionOpenConfirm ctx k m = (Panic, ctx)"
  using assms by (simp add: HandleMsgConnectionOpenConfirm_def)

lemma assert_Proof_None: "assert_Proof v = None \<longleftrightarrow> (\<forall>p. v \<noteq> ProofValue p)"
  by (cases v) simp_all

text \<open>
  C8, as the code has it. The handlers of ConnectionOpenTry, ConnectionOpenAck and
  ConnectionOpenConfirm take the proof out of each envelope by an unchecked type
  assertion on its cached value, before the keeper is called. When every envelope of
  the message holds a concrete proof, the keeper's step runs on exactly these proofs
  and the handler returns the step's error or a result. When some envelope holds no
  proof, the handler panics before the keeper is called, with the context untouched;
  it returns no InvalidProof error.
\<close>

theorem handlers_extract_proofs:
  "(assert_Proof (GetCachedValue (try_ProofInit mt)) = Some p1
      \<and> assert_Proof (GetCachedValue (try_ProofConsensus mt)) = Some p2 \<longrightarrow>
      (case ConnOpenTry k ctx (try_ConnectionID mt) (try_Counterparty mt) (try_ClientID mt)
              (try_CounterpartyVersions mt) p1 p2 (try_ProofHeight mt) (try_ConsensusHeight mt) of
         (Some err, ctx1) \<Rightarrow> HandleMsgConnectionOpenTry ctx k mt = (Failed err, ctx1)
       | (None, ctx1) \<Rightarrow> (\<exists>res ctx2. HandleMsgConnectionOpenTry ctx k mt = (Returned res, ctx2))))
   \<and> (assert_Proof (GetCachedValue (try_ProofInit mt)) = None
      \<or> assert_Proof (GetCachedValue (try_ProofConsensus mt)) = None \<longrightarrow>
      HandleMsgConnectionOpenTry ctx k mt = (Panic, ctx))
   \<and> (assert_Proof (GetCachedValue (ack_ProofTry ma)) = Some p1
      \<and> assert_Proof (GetCachedValue (ack_ProofConsensus ma)) = Some p2 \<longrightarrow>
      (case ConnOpenAck k ctx (ack_ConnectionID ma) (ack_Version ma) p1 p2
              (ack_ProofHeight ma) (ack_ConsensusHeight ma) of
         (Some err, ctx1) \<Rightarrow> HandleMsgConnectionOpenAck ctx k ma = (Failed err, ctx1)
       | (None, ctx1) \<Rightarrow> (\<exists>res ctx2. HandleMsgConnectionOpenAck ctx k ma = (Returned res, ctx2))))
   \<and> (assert_Proof (GetCachedValue (ack_ProofTry ma)) = None
      \<or> assert_Proof (GetCachedValue (ack_ProofConsensus ma)) = None \<longrightarrow>
      HandleMsgConnectionOpenAck ctx k ma = (Panic, ctx))
   \<and> (assert_Proof (GetCachedValue (confirm_ProofAck mc)) = Some p1 \<longrightarrow>
      (case ConnOpenConfirm k ctx (confirm_ConnectionID mc) p1 (confirm_ProofHeight mc) of
         (Some err, ctx1) \<Rightarrow> HandleMsgConnectionOpenConfirm ctx k mc = (Failed err, ctx1)
       | (None, ctx1) \<Rightarrow> (\<exists>res ctx2. HandleMsgConnectionOpenConfirm ctx k mc = (Returned res, ctx2))))
   \<and> (assert_Proof (GetCachedValue (confirm_ProofAck mc)) = None \<longrightarrow>
      HandleMsgConnectionOpenConfirm ctx k mc = (Panic, ctx))"
proof (intro conjI impI)
  assume a: "assert_Proof (GetCachedValue (try_ProofInit mt)) = Some p1
      \<and> assert_Proof (GetCachedValue (try_ProofConsensus mt)) = Some p2"
  show "case ConnOpenTry k ctx (try_ConnectionID mt) (try_Counterparty mt) (try_ClientID mt)
              (try_CounterpartyVersions mt) p1 p2 (try_ProofHeight mt) (try_ConsensusHeight mt) of
         (Some err, ctx1) \<Rightarrow> HandleMsgConnectionOpenTry ctx k mt = (Failed err, ctx1)
       | (None, ctx1) \<Rightarrow> (\<exists>res ctx2. HandleMsgConnectionOpenTry ctx k mt = (Returned res, ctx2))"
    using a by (simp add: HandleMsgConnectionOpenTry_def Let_def split: prod.splits option.splits)
next
  assume "assert_Proof (GetCachedValue (try_ProofInit mt)) = None
      \<or> assert_Proof (GetCachedValue (try_ProofConsensus mt)) = None"
  then show "HandleMsgConnectionOpenTry ctx k mt = (Panic, ctx)"
    by (rule HandleMsgConnectionOpenTry_panic)
next
  assume a: "assert_Proof (GetCachedValue (ack_ProofTry ma)) = Some p1
      \<and> assert_Proof (GetCachedValue (ack_ProofConsensus ma)) = Some p2"
  show "case ConnOpenAck k ctx (ack_ConnectionID ma) (ack_Version ma) p1 p2
              (ack_ProofHeight ma) (ack_ConsensusHeight ma) of
         (Some err, ctx1) \<Rightarrow> HandleMsgConnectionOpenAck ctx k ma = (Failed err, ctx1)
       | (None, ctx1) \<Rightarrow> (\<exists>res ctx2. HandleMsgConnectionOpenAck ctx k ma = (Returned res, ctx2))"
    using a by (simp add: HandleMsgConnectionOpenAck_def Let_def split: prod.splits option.splits)
next
  assume "assert_Proof (GetCachedValue (ack_ProofTry ma)) = None
      \<or> assert_Proof (GetCachedValue (ack_ProofConsensus ma)) = None"
  then show "HandleMsgConnectionOpenAck ctx k ma = (Panic, ctx)"
    by (rule HandleMsgConnectionOpenAck_panic)
next
  assume a: "assert_Proof (GetCachedValue (confirm_ProofAck mc)) = Some p1"
  show "case ConnOpenConfirm k ctx (confirm_ConnectionID mc) p1 (confirm_ProofHeight mc) of
         (Some err, ctx1) \<Rightarrow> HandleMsgConnectionOpenConfirm ctx k mc = (Failed err, ctx1)
       | (None, ctx1) \<Rightarrow> (\<exists>res ctx2. HandleMsgConnectionOpenConfirm ctx k mc = (Returned res, ctx2))"
    using a by (simp add: HandleMsgConnectionOpenConfirm_def Let_def split: prod.splits option.splits)
next
  assume "assert_Proof (GetCachedValue (confirm_ProofAck mc)) = None"
  then show "HandleMsgConnectionOpenConfirm ctx k mc = (Panic, ctx)"
    by (rule HandleMsgConnectionOpenConfirm_panic)
qed

theorem handlers_extract_proofs_witness:
  "(\<exists>res ctx2. HandleMsgConnectionOpenTry ctx0 k0 (try_msg ''c1'' (ProofValue sig0))
        = (Returned res, ctx2))
   \<and> HandleMsgConnectionOpenTry ctx0 k0 (try_msg ''bad'' (ProofValue sig0))
        = (Failed (Root (ErrKeeper ''rejected'')), ctx0)
   \<and> HandleMsgConnectionOpenTry ctx0 k0 (try_msg ''c1'' NilValue) = (Panic, ctx0)
   \<and> (\<exists>res ctx2. HandleMsgConnectionOpenAck ctx0 k0 (ack_msg ''c1'' (ProofValue sig0))
        = (Returned res, ctx2))
   \<and> HandleMsgConnectionOpenAck ctx0 k0 (ack_msg ''c1'' (OtherValue ''/ibc.connection.Version''))
        = (Panic, ctx0)
   \<and> (\<exists>res ctx2. HandleMsgConnectionOpenConfirm ctx0 k0 (confirm_msg ''c1'' (ProofValue sig0))
        = (Returned res, ctx2))
   \<and> HandleMsgConnectionOpenConfirm ctx0 k0 (confirm_msg ''c1'' NilValue) = (Panic, ctx0)"
proof -
  note good = handlers_extract_proofs
    [where mt = "try_msg ''c1'' (ProofValue sig0)" and ma = "ack_msg ''c1'' (ProofValue sig0)"
       and mc = "confirm_msg ''c1'' (ProofValue sig0)" and ?p1.0 = sig0 and ?p2.0 = sig0
       and k = k0 and ctx = ctx0]
  note rejected = handlers_extract_proofs
    [where mt = "try_msg ''bad'' (ProofValue sig0)" and ma = "ack_msg ''bad'' (ProofValue sig0)"
       and mc = "confirm_msg ''bad'' (ProofValue sig0)" and ?p1.0 = sig0 and ?p2.0 = sig0
       and k = k0 and ctx = ctx0]
  note bad = handlers_extract_proofs
    [where mt = "try_msg ''c1'' NilValue"
       and ma = "ack_msg ''c1'' (OtherValue ''/ibc.connection.Version'')"
       and mc = "confirm_msg ''c1'' NilValue" and ?p1.0 = sig0 and ?p2.0 = sig0
       and k = k0 and ctx = ctx0]
  have 1: "\<exists>res ctx2. HandleMsgConnectionOpenTry ctx0 k0 (try_msg ''c1'' (ProofValue sig0))
        = (Returned res, ctx2)"
    using good by (simp add: handler_example_defs)
  have 2: "HandleMsgConnectionOpenTry ctx0 k0 (try_msg ''bad'' (ProofValue sig0))
        = (Failed (Root (ErrKeeper ''rejected'')), ctx0)"
    using rejected by (simp add: handler_example_defs)
  have 3: "HandleMsgConnectionOpenTry ctx0 k0 (try_msg ''c1'' NilValue) = (Panic, ctx0)"
    using bad by (simp add: handler_example_defs)
  have 4: "\<exists>res ctx2. HandleMsgConnectionOpenAck ctx0 k0 (ack_msg ''c1'' (ProofValue sig0))
        = (Returned res, ctx2)"
    using good by (simp add: handler_example_defs)
  have 5: "HandleMsgConnectionOpenAck ctx0 k0 (ack_msg ''c1'' (OtherValue ''/ibc.connection.Version''))
        = (Panic, ctx0)"
    using bad by (simp add: handler_example_defs)
  have 6: "\<exists>res ctx2. HandleMsgConnectionOpenConfirm ctx0 k0 (confirm_msg ''c1'' (ProofValue sig0))
        = (Returned res, ctx2)"
    using good by (simp add: handler_example_defs)
  have 7: "HandleMsgConnectionOpenConfirm ctx0 k0 (confirm_msg ''c1'' NilValue) = (Panic, ctx0)"
    using bad by (simp add: handler_example_defs)
  from 1 2 3 4 5 6 7 show ?thesis by blast
qed

text \<open>
  The claim as the specification states it fails: an envelope whose cached value is
  not a proof makes the handler panic; no InvalidProof error is returned.
\<close>

theorem handlers_extract_proofs_counterexample:
  "HandleMsgConnectionOpenConfirm ctx0 k0 (confirm_msg ''c1'' (OtherValue ''/ibc.connection.Version''))
     = (Panic, ctx0)
   \<and> fst (HandleMsgConnectionOpenConfirm ctx0 k0
            (confirm_msg ''c1'' (OtherValue ''/ibc.connection.Version'')))
     \<noteq> Failed (Root ErrInvalidProof)"
  by (simp add: HandleMsgConnectionOpenConfirm_def handler_example_defs)

text \<open>
  C9, as the code has it. For every handler call that reaches the keeper: when the
  keeper's step returns an error, the handler returns that error and emits nothing;
  when the step succeeds, the handler emits exactly two events after those already in
  the context, the event of the step and the message marker, and returns all events of
  the context. The event of OpenInit and OpenTry carries the connection, client and
  counterparty client identifiers; the event of OpenAck and OpenConfirm carries the
  connection identifier only, their messages having no client fields.
\<close>

theorem handlers_emit_events:
  "((ConnOpenInit k ctx (init_ConnectionID mi) (init_ClientID mi) (init_Counterparty mi)
        = (Some err, ctx1)
      \<longrightarrow> HandleMsgConnectionOpenInit ctx k mi = (Failed err, ctx1))
    \<and> (ConnOpenInit k ctx (init_ConnectionID mi) (init_ClientID mi) (init_Counterparty mi)
        = (None, ctx1)
      \<longrightarrow> HandleMsgConnectionOpenInit ctx k mi =
          emitted ctx1
            [NewEvent EventTypeConnectionOpenInit
               [(AttributeKeyConnectionID, AttributeString (init_ConnectionID mi)),
                (AttributeKeyClientID, AttributeString (init_ClientID mi)),
                (AttributeKeyCounterpartyClientID,
                 AttributeString (cp_ClientID (init_Counterparty mi)))],
             message_marker]))
   \<and> (assert_Proof (GetCachedValue (try_ProofInit mt)) = Some p1
      \<and> assert_Proof (GetCachedValue (try_ProofConsensus mt)) = Some p2 \<longrightarrow>
      (ConnOpenTry k ctx (try_ConnectionID mt) (try_Counterparty mt) (try_ClientID mt)
             (try_CounterpartyVersions mt) p1 p2 (try_ProofHeight mt) (try_ConsensusHeight mt)
           = (Some err, ctx1)
        \<longrightarrow> HandleMsgConnectionOpenTry ctx k mt = (Failed err, ctx1))
      \<and> (ConnOpenTry k ctx (try_ConnectionID mt) (try_Counterparty mt) (try_ClientID mt)
             (try_CounterpartyVersions mt) p1 p2 (try_ProofHeight mt) (try_ConsensusHeight mt)
           = (None, ctx1)
        \<longrightarrow> HandleMsgConnectionOpenTry ctx k mt =
          emitted ctx1
            [NewEvent EventTypeConnectionOpenTry
               [(AttributeKeyConnectionID, AttributeString (try_ConnectionID mt)),
                (AttributeKeyClientID, AttributeString (try_ClientID mt)),
                (AttributeKeyCounterpartyClientID,
                 AttributeString (cp_ClientID (try_Counterparty mt)))],
             message_marker]))
   \<and> (assert_Proof (GetCachedValue (ack_ProofTry ma)) = Some p1
      \<and> assert_Proof (GetCachedValue (ack_ProofConsensus ma)) = Some p2 \<longrightarrow>
      (ConnOpenAck k ctx (ack_ConnectionID ma) (ack_Version ma) p1 p2
             (ack_ProofHeight ma) (ack_ConsensusHeight ma) = (Some err, ctx1)
        \<longrightarrow> HandleMsgConnectionOpenAck ctx k ma = (Failed err, ctx1))
      \<and> (ConnOpenAck k ctx (ack_ConnectionID ma) (ack_Version ma) p1 p2
             (ack_ProofHeight ma) (ack_ConsensusHeight ma) = (None, ctx1)
        \<longrightarrow> HandleMsgConnectionOpenAck ctx k ma =
          emitted ctx1
            [NewEvent EventTypeConnectionOpenAck
               [(AttributeKeyConnectionID, AttributeString (ack_ConnectionID ma))],
             message_marker]))
   \<and> (assert_Proof (GetCachedValue (confirm_ProofAck mc)) = Some p1 \<longrightarrow>
      (ConnOpenConfirm k ctx (confirm_ConnectionID mc) p1 (confirm_ProofHeight mc)
           = (Some err, ctx1)
        \<longrightarrow> HandleMsgConnectionOpenConfirm ctx k mc = (Failed err, ctx1))
      \<and> (ConnOpenConfirm k ctx (confirm_ConnectionID mc) p1 (confirm_ProofHeight mc)
           = (None, ctx1)
        \<longrightarrow> HandleMsgConnectionOpenConfirm ctx k mc =
          emitted ctx1
            [NewEvent EventTypeConnectionOpenConfirm
               [(AttributeKeyConnectionID, AttributeString (confirm_ConnectionID mc))],
             message_marker]))"
  using HandleMsgConnectionOpenInit_events [of k ctx mi err ctx1]
    HandleMsgConnectionOpenTry_events [of mt p1 p2 k ctx err ctx1]
    HandleMsgConnectionOpenAck_events [of ma p1 p2 k ctx err ctx1]
    HandleMsgConnectionOpenConfirm_events [of mc p1 k ctx err ctx1]
  by blast

theorem handlers_emit_events_witness:
  "HandleMsgConnectionOpenInit ctx0 k0 (init_msg ''c1'')
     = emitted ctx0
         [NewEvent EventTypeConnectionOpenInit
            [(AttributeKeyConnectionID, AttributeString ''c1''),
             (AttributeKeyClientID, AttributeString ''clientA''),
             (AttributeKeyCounterpartyClientID, AttributeString ''clientB'')],
          message_marker]
   \<and> HandleMsgConnectionOpenInit ctx0 k0 (init_msg ''bad'')
     = (Failed (Root (ErrKeeper ''rejected'')), ctx0)
   \<and> HandleMsgConnectionOpenTry ctx0 k0 (try_msg ''c1'' (ProofValue sig0))
     = emitted ctx0
         [NewEvent EventTypeConnectionOpenTry
            [(AttributeKeyConnectionID, AttributeString ''c1''),
             (AttributeKeyClientID, AttributeString ''clientA''),
             (AttributeKeyCounterpartyClientID, AttributeString ''clientB'')],
          message_marker]
   \<and> HandleMsgConnectionOpenTry ctx0 k0 (try_msg ''bad'' (ProofValue sig0))
     = (Failed (Root (ErrKeeper ''rejected'')), ctx0)
   \<and> HandleMsgConnectionOpenAck ctx0 k0 (ack_msg ''c1'' (ProofValue sig0))
     = emitted ctx0
         [NewEvent EventTypeConnectionOpenAck
            [(AttributeKeyConnectionID, AttributeString ''c1'')],
          message_marker]
   \<and> HandleMsgConnectionOpenAck ctx0 k0 (ack_msg ''bad'' (ProofValue sig0))
     = (Failed (Root (ErrKeeper ''rejected'')), ctx0)
   \<and> HandleMsgConnectionOpenConfirm ctx0 k0 (confirm_msg ''c1'' (ProofValue sig0))
     = emitted ctx0
         [NewEvent EventTypeConnectionOpenConfirm
            [(AttributeKeyConnectionID, AttributeString ''c1'')],
          message_marker]
   \<and> HandleMsgConnectionOpenConfirm ctx0 k0 (confirm_msg ''bad'' (ProofValue sig0))
     = (Failed (Root (ErrKeeper ''rejected'')), ctx0)"
proof -
  note accepted = handlers_emit_events
    [where mi = "init_msg ''c1''" and mt = "try_msg ''c1'' (ProofValue sig0)"
       and ma = "ack_msg ''c1'' (ProofValue sig0)" and mc = "confirm_msg ''c1'' (ProofValue sig0)"
       and ?p1.0 = sig0 and ?p2.0 = sig0 and k = k0 and ctx = ctx0 and ?ctx1.0 = ctx0
       and err = "Root (ErrKeeper ''rejected'')"]
  note rejected = handlers_emit_events
    [where mi = "init_msg ''bad''" and mt = "try_msg ''bad'' (ProofValue sig0)"
       and ma = "ack_msg ''bad'' (ProofValue sig0)" and mc = "confirm_msg ''bad'' (ProofValue sig0)"
       and ?p1.0 = sig0 and ?p2.0 = sig0 and k = k0 and ctx = ctx0 and ?ctx1.0 = ctx0
       and err = "Root (ErrKeeper ''rejected'')"]
  have 1: "HandleMsgConnectionOpenInit ctx0 k0 (init_msg ''c1'')
     = emitted ctx0
         [NewEvent EventTypeConnectionOpenInit
            [(AttributeKeyConnectionID, AttributeString ''c1''),
             (AttributeKeyClientID, AttributeString ''clientA''),
             (AttributeKeyCounterpartyClientID, AttributeString ''clientB'')],
          message_marker]"
    using accepted by (simp add: handler_example_defs)
  have 2: "HandleMsgConnectionOpenInit ctx0 k0 (init_msg ''bad'')
     = (Failed (Root (ErrKeeper ''rejected'')), ctx0)"
    using rejected by (simp add: handler_example_defs)
  have 3: "HandleMsgConnectionOpenTry ctx0 k0 (try_msg ''c1'' (ProofValue sig0))
     = emitted ctx0
         [NewEvent EventTypeConnectionOpenTry
            [(AttributeKeyConnectionID, AttributeString ''c1''),
             (AttributeKeyClientID, AttributeString ''clientA''),
             (AttributeKeyCounterpartyClientID, AttributeString ''clientB'')],
          message_marker]"
    using accepted by (simp add: handler_example_defs)
  have 4: "HandleMsgConnectionOpenTry ctx0 k0 (try_msg ''bad'' (ProofValue sig0))
     = (Failed (Root (ErrKeeper ''rejected'')), ctx0)"
    using rejected by (simp add: handler_example_defs)
  have 5: "HandleMsgConnectionOpenAck ctx0 k0 (ack_msg ''c1'' (ProofValue sig0))
     = emitted ctx0
         [NewEvent EventTypeConnectionOpenAck
            [(AttributeKeyConnectionID, AttributeString ''c1'')],
          message_marker]"
    using accepted by (simp add: handler_example_defs)
  have 6: "HandleMsgConnectionOpenAck ctx0 k0 (ack_msg ''bad'' (ProofValue sig0))
     = (Failed (Root (ErrKeeper ''rejected'')), ctx0)"
    using rejected by (simp add: handler_example_defs)
  have 7: "HandleMsgConnectionOpenConfirm ctx0 k0 (confirm_msg ''c1'' (ProofValue sig0))
     = emitted ctx0
         [NewEvent EventTypeConnectionOpenConfirm
            [(AttributeKeyConnectionID, AttributeString ''c1'')],
          message_marker]"
    using accepted by (simp add: handler_example_defs)
  have 8: "HandleMsgConnectionOpenConfirm ctx0 k0 (confirm_msg ''bad'' (ProofValue sig0))
     = (Failed (Root (ErrKeeper ''rejected'')), ctx0)"
    using rejected by (simp add: handler_example_defs)
  from 1 2 3 4 5 6 7 8 show ?thesis by blast
qed

text \<open>
  The claim as the specification states it fails: the event of a successful OpenAck
  carries the connection identifier and nothing else, neither the client nor the
  counterparty identifier.
\<close>

theorem handlers_emit_events_counterexample:
  "fst (HandleMsgConnectionOpenAck ctx0 k0 (ack_msg ''c1'' (ProofValue sig0)))
     = Returned \<lparr>res_Events =
         [\<lparr>ev_Type = EventTypeConnectionOpenAck,
            ev_Attributes = [(AttributeKeyConnectionID, AttributeString ''c1'')]\<rparr>,
          \<lparr>ev_Type = EventTypeMessage,
            ev_Attributes = [(AttributeKeyModule, AttributeValueCategory)]\<rparr>]\<rparr>
   \<and> AttributeKeyClientID \<notin> fst ` set [(AttributeKeyConnectionID, AttributeString ''c1'')]
   \<and> AttributeKeyCounterpartyClientID
        \<notin> fst ` set [(AttributeKeyConnectionID, AttributeString ''c1'')]"
  by (simp add: HandleMsgConnectionOpenAck_def handler_example_defs EmitEvents_def NewEvent_def
      NewAttribute_def Let_def)

end
